theory Spec2Isabelle
  imports Complex_Main "HOL-Library.Sublist"
begin

section \<open>Python strings\<close>

text \<open>
  Strings are lists of 8-bit characters, read as the code points 0..255. The string
  methods below are Python's, restricted to those code points.
\<close>

text \<open>\<^verbatim>\<open>str.isspace\<close> for one character: the white space that \<^verbatim>\<open>str.strip()\<close> removes.\<close>

definition is_space :: "char \<Rightarrow> bool" where
  "is_space c \<longleftrightarrow>
     (let n = (of_char c :: nat)
      in (9 \<le> n \<and> n \<le> 13) \<or> (28 \<le> n \<and> n \<le> 32) \<or> n = 133 \<or> n = 160)"

text \<open>\<^verbatim>\<open>s.strip()\<close>\<close>

definition strip :: "string \<Rightarrow> string" where
  "strip s = rev (dropWhile is_space (rev (dropWhile is_space s)))"

text \<open>\<^verbatim>\<open>s.lower()\<close>: A-Z and the upper-case letters of Latin-1 move up by 32.\<close>

definition lower_char :: "char \<Rightarrow> char" where
  "lower_char c =
     (let n = (of_char c :: nat)
      in if (65 \<le> n \<and> n \<le> 90) \<or> (192 \<le> n \<and> n \<le> 222 \<and> n \<noteq> 215)
         then char_of (n + 32) else c)"

definition lower :: "string \<Rightarrow> string" where
  "lower s = map lower_char s"

text \<open>\<^verbatim>\<open>sub in s\<close>: \<open>sub\<close> occurs in \<open>s\<close> as a contiguous run.\<close>

definition py_in :: "string \<Rightarrow> string \<Rightarrow> bool" where
  "py_in sub s \<longleftrightarrow> sublist sub s"

text \<open>
  \<^verbatim>\<open>s.split(sep)\<close> scans from the left and cuts at every occurrence of \<open>sep\<close>
  that does not overlap the previous cut; \<open>cur\<close> holds the piece being read,
  reversed. Python raises ValueError for an empty separator; every call site
  of the sources passes a non-empty literal.
\<close>

fun split_acc :: "string \<Rightarrow> string \<Rightarrow> string \<Rightarrow> string list" where
  "split_acc sep cur [] = [rev cur]"
| "split_acc sep cur (c # cs) =
     (if sep \<noteq> [] \<and> prefix sep (c # cs)
      then rev cur # split_acc sep [] (drop (length sep - 1) cs)
      else split_acc sep (c # cur) cs)"

definition split :: "string \<Rightarrow> string \<Rightarrow> string list" where
  "split s sep = split_acc sep [] s"

section \<open>Cells of a pandas column\<close>

text \<open>
  A value read from a CSV column: a string, a number, or missing (NaN).
\<close>

datatype cell = Str string | Num int | NaN

text \<open>\<^verbatim>\<open>pd.isna(v)\<close>\<close>

fun isna :: "cell \<Rightarrow> bool" where
  "isna NaN = True"
| "isna _ = False"

text \<open>\<^verbatim>\<open>str(v)\<close>: decimal digits for a number.\<close>

fun digits :: "nat \<Rightarrow> string" where
  "digits n =
     (if n < 10 then [char_of (48 + n)]
      else digits (n div 10) @ [char_of (48 + n mod 10)])"

fun py_str :: "cell \<Rightarrow> string" where
  "py_str (Str s) = s"
| "py_str (Num i) = (if i < 0 then CHR ''-'' # digits (nat (- i)) else digits (nat i))"
| "py_str NaN = ''nan''"

section \<open>utils/trend\_extractor.py\<close>

text \<open>
  \<^verbatim>\<open>get_street_variants(street_name)\<close>: the name variants of an entry of the
  route-popularity file. A value that is not a string gives no variant; otherwise
  the name is split on \<open>/\<close> if it has one, else on \<open>&\<close> if it has one, else kept
  whole; every piece is stripped and the empty pieces are dropped.
\<close>

fun get_street_variants :: "cell \<Rightarrow> string list" where
  "get_street_variants (Str street_name) =
     (let variants =
        (if py_in ''/'' street_name then map strip (split street_name ''/'')
         else if py_in ''&'' street_name then map strip (split street_name ''&'')
         else [strip street_name])
      in filter (\<lambda>v. v \<noteq> []) variants)"
| "get_street_variants _ = []"

section \<open>src/tab3\_route\_popularity.py\<close>

text \<open>
  \<^verbatim>\<open>get_color(change_text)\<close>, the colour of a route from its Popularity Change
  text.
\<close>

definition get_color :: "cell \<Rightarrow> string" where
  "get_color change_text =
     (if isna change_text then ''Gray''
      else
        let change_lower = lower (py_str change_text)
        in if py_in ''increasing'' change_lower \<or> py_in ''improved'' change_lower
           then ''Green''
           else if py_in ''decreasing'' change_lower \<or> py_in ''dropped'' change_lower
                   \<or> py_in ''decline'' change_lower
           then ''Red''
           else ''Gray'')"

text \<open>\<^verbatim>\<open>sep.join(parts)\<close>\<close>

fun join :: "string \<Rightarrow> string list \<Rightarrow> string" where
  "join sep [] = []"
| "join sep [p] = p"
| "join sep (p # q # ps) = p @ sep @ join sep (q # ps)"

section \<open>Python values\<close>

text \<open>The exceptions the modelled code can raise.\<close>

datatype exn = TypeError | ValueError | KeyError | AttributeError | OSError

text \<open>
  A Python float: a finite value, an infinity or NaN. Comparison and equality
  with NaN are false. \<^verbatim>\<open>min(a, b)\<close> keeps \<open>a\<close> unless \<open>b < a\<close>, and
  \<^verbatim>\<open>max(a, b)\<close> keeps \<open>a\<close> unless \<open>b > a\<close>; neither rounds.
\<close>

datatype pyfloat = Finite real | Inf | NegInf | NanF

fun lt :: "pyfloat \<Rightarrow> pyfloat \<Rightarrow> bool" where
  "lt NanF _ = False"
| "lt _ NanF = False"
| "lt (Finite a) (Finite b) = (a < b)"
| "lt (Finite a) Inf = True"
| "lt (Finite a) NegInf = False"
| "lt Inf _ = False"
| "lt NegInf (Finite b) = True"
| "lt NegInf Inf = True"
| "lt NegInf NegInf = False"

definition py_eq :: "pyfloat \<Rightarrow> pyfloat \<Rightarrow> bool" where
  "py_eq a b \<longleftrightarrow> a = b \<and> a \<noteq> NanF"

definition py_min :: "pyfloat \<Rightarrow> pyfloat \<Rightarrow> pyfloat" where
  "py_min a b = (if lt b a then b else a)"

definition py_max :: "pyfloat \<Rightarrow> pyfloat \<Rightarrow> pyfloat" where
  "py_max a b = (if lt a b then b else a)"

text \<open>
  A value loaded by \<^verbatim>\<open>json.load\<close>; an object is a dict, here its items in
  order with the first binding of a key the one that counts.
\<close>

datatype json =
  JNull | JBool bool | JNum pyfloat | JStr string | JArr "json list"
  | JObj "(string \<times> json) list"

type_synonym dict = "(string \<times> json) list"

text \<open>\<^verbatim>\<open>d.get(key, default)\<close>\<close>

definition dict_get :: "dict \<Rightarrow> string \<Rightarrow> json \<Rightarrow> json" where
  "dict_get d key dflt = (case map_of d key of Some v \<Rightarrow> v | None \<Rightarrow> dflt)"

text \<open>
  What a \<^verbatim>\<open>for\<close> loop over a JSON value visits: the elements of a list, the
  characters of a string, the keys of a dict; anything else is not iterable.
\<close>

fun py_iter :: "json \<Rightarrow> exn + json list" where
  "py_iter (JArr xs) = Inr xs"
| "py_iter (JStr s) = Inr (map (\<lambda>c. JStr [c]) s)"
| "py_iter (JObj kvs) = Inr (map JStr (remdups (map fst kvs)))"
| "py_iter _ = Inl TypeError"

text \<open>
  A value compared with a float by \<open><\<close>: a number or a bool is compared by its
  value; any other type raises TypeError.
\<close>

fun as_float :: "json \<Rightarrow> exn + pyfloat" where
  "as_float (JNum x) = Inr x"
| "as_float (JBool b) = Inr (Finite (if b then 1 else 0))"
| "as_float _ = Inl TypeError"

text \<open>A loop whose body may raise: the first exception ends it.\<close>

fun for_loop :: "('s \<Rightarrow> 'a \<Rightarrow> exn + 's) \<Rightarrow> 's \<Rightarrow> 'a list \<Rightarrow> exn + 's" where
  "for_loop body s [] = Inr s"
| "for_loop body s (x # xs) =
     (case body s x of Inl e \<Rightarrow> Inl e | Inr s' \<Rightarrow> for_loop body s' xs)"

section \<open>src/tab2\_abnormal\_events.py: map bounds\<close>

record bounds =
  min_lon :: pyfloat
  min_lat :: pyfloat
  max_lon :: pyfloat
  max_lat :: pyfloat

text \<open>
  The body of \<^verbatim>\<open>for lon, lat in ring\<close>: the element is unpacked into exactly two
  values (ValueError otherwise, TypeError when it is not iterable) and the four
  running bounds are updated.
\<close>

definition vertex_step :: "bounds \<Rightarrow> json \<Rightarrow> exn + bounds" where
  "vertex_step b v =
     (case py_iter v of
        Inl e \<Rightarrow> Inl e
      | Inr [lon, lat] \<Rightarrow>
          (case as_float lon of
             Inl e \<Rightarrow> Inl e
           | Inr x \<Rightarrow>
               (case as_float lat of
                  Inl e \<Rightarrow> Inl e
                | Inr y \<Rightarrow>
                    Inr \<lparr>min_lon = py_min (min_lon b) x, min_lat = py_min (min_lat b) y,
                         max_lon = py_max (max_lon b) x, max_lat = py_max (max_lat b) y\<rparr>))
      | Inr _ \<Rightarrow> Inl ValueError)"

definition ring_step :: "bounds \<Rightarrow> json \<Rightarrow> exn + bounds" where
  "ring_step b ring =
     (case py_iter ring of Inl e \<Rightarrow> Inl e | Inr vs \<Rightarrow> for_loop vertex_step b vs)"

definition geom_step :: "bounds \<Rightarrow> dict \<Rightarrow> exn + bounds" where
  "geom_step b geom =
     (let coords = dict_get geom ''coordinates'' (JArr [JArr []])
      in if map_of geom ''type'' = Some (JStr ''Polygon'')
         then (case py_iter coords of
                 Inl e \<Rightarrow> Inl e
               | Inr rings \<Rightarrow> for_loop ring_step b rings)
         else Inr b)"

definition default_bounds :: "pyfloat list" where
  "default_bounds = [Finite (-6.3), Finite 53.2, Finite (-6.1), Finite 53.4]"

text \<open>\<^verbatim>\<open>calculate_bounds_from_geometries(geometries)\<close>\<close>

definition calculate_bounds_from_geometries :: "dict list \<Rightarrow> exn + pyfloat list" where
  "calculate_bounds_from_geometries geometries =
     (case for_loop geom_step
             \<lparr>min_lon = Inf, min_lat = Inf, max_lon = NegInf, max_lat = NegInf\<rparr> geometries of
        Inl e \<Rightarrow> Inl e
      | Inr b \<Rightarrow>
          Inr (if py_eq (min_lon b) Inf then default_bounds
               else [min_lon b, min_lat b, max_lon b, max_lat b]))"

text \<open>
  The vocabulary of the claim about the bounds: a Polygon geometry, a vertex that
  is a pair of finite numbers, and the vertices of the rings of the Polygons of a
  list whose Polygons are all made of such vertices.
\<close>

definition is_polygon :: "dict \<Rightarrow> bool" where
  "is_polygon geom \<longleftrightarrow> map_of geom ''type'' = Some (JStr ''Polygon'')"

fun vertex_of :: "json \<Rightarrow> (real \<times> real) option" where
  "vertex_of (JArr [JNum (Finite x), JNum (Finite y)]) = Some (x, y)"
| "vertex_of _ = None"

fun is_vertex :: "json \<Rightarrow> bool" where
  "is_vertex (JArr [JNum (Finite x), JNum (Finite y)]) = True"
| "is_vertex _ = False"

fun is_array :: "json \<Rightarrow> bool" where
  "is_array (JArr xs) = True"
| "is_array _ = False"

fun items :: "json \<Rightarrow> json list" where
  "items (JArr xs) = xs"
| "items _ = []"

definition polygon_vertex_values :: "dict \<Rightarrow> json list" where
  "polygon_vertex_values geom =
     concat (map items (items (dict_get geom ''coordinates'' (JArr [JArr []]))))"

definition planar_polygon :: "dict \<Rightarrow> bool" where
  "planar_polygon geom \<longleftrightarrow>
     (let coords = dict_get geom ''coordinates'' (JArr [JArr []])
      in is_array coords \<and>
         list_all (\<lambda>r. is_array r \<and> list_all is_vertex (items r)) (items coords))"

definition ring_vertices :: "dict list \<Rightarrow> (real \<times> real) list" where
  "ring_vertices geometries =
     concat (map (\<lambda>g. List.map_filter vertex_of (polygon_vertex_values g))
                 (filter is_polygon geometries))"

text \<open>The running bounds after the vertices \<open>pts\<close> have been visited.\<close>

definition lowest :: "real list \<Rightarrow> pyfloat" where
  "lowest xs = (if xs = [] then Inf else Finite (Min (set xs)))"

definition highest :: "real list \<Rightarrow> pyfloat" where
  "highest xs = (if xs = [] then NegInf else Finite (Max (set xs)))"

definition bounds_of :: "(real \<times> real) list \<Rightarrow> bounds" where
  "bounds_of pts =
     \<lparr>min_lon = lowest (map fst pts), min_lat = lowest (map snd pts),
      max_lon = highest (map fst pts), max_lat = highest (map snd pts)\<rparr>"

section \<open>Python float arithmetic\<close>

text \<open>
  A finite Python float is a pair \<open>(m, e)\<close> of integers that stands for the
  number \<open>m * 2^e\<close>. An arithmetic operation gives the exact result rounded to
  the nearest number with a 53-bit significand, ties to the even significand
  (IEEE 754 binary64). The exponent range is not modelled: the values below are
  quotients of row counts and their products with 100, far from overflow and
  underflow.
\<close>

type_synonym float64 = "int \<times> int"

definition float_value :: "float64 \<Rightarrow> rat" where
  "float_value x =
     (if 0 \<le> snd x then of_int (fst x) * 2 ^ nat (snd x)
      else of_int (fst x) / 2 ^ nat (- snd x))"

text \<open>\<^verbatim>\<open>n.bit_length()\<close>\<close>

fun bit_length :: "nat \<Rightarrow> nat" where
  "bit_length n = (if n = 0 then 0 else Suc (bit_length (n div 2)))"

text \<open>The fraction \<open>num / den\<close> times \<open>2^k\<close>, again as a fraction.\<close>

definition mul_pow2 :: "int \<times> int \<Rightarrow> int \<Rightarrow> int \<times> int" where
  "mul_pow2 f k = (if 0 \<le> k then (fst f * 2 ^ nat k, snd f) else (fst f, snd f * 2 ^ nat (- k)))"

text \<open>The integer nearest to \<open>num / den\<close>, a tie going to the even one (\<open>den\<close> positive).\<close>

definition round_half_even :: "int \<Rightarrow> int \<Rightarrow> int" where
  "round_half_even num den =
     (let q = num div den; r = num mod den
      in if 2 * r < den then q
         else if den < 2 * r then q + 1
         else if even q then q else q + 1)"

text \<open>
  The float nearest to \<open>num / den\<close>, for \<open>num\<close> and \<open>den\<close> positive: the binary
  exponent \<open>e\<close> with \<open>2^e \<le> num / den < 2^(e+1)\<close> is found from the bit lengths,
  and the quotient is rounded at \<open>2^(e-52)\<close>.
\<close>

definition nearest_double :: "int \<Rightarrow> int \<Rightarrow> float64" where
  "nearest_double num den =
     (if num = 0 then (0, 0)
      else
        let d = int (bit_length (nat num)) - int (bit_length (nat den));
            f = mul_pow2 (num, den) (- d);
            e = (if snd f \<le> fst f then d else d - 1);
            g = mul_pow2 (num, den) (52 - e)
        in (round_half_even (fst g) (snd g), e - 52))"

text \<open>
  \<^verbatim>\<open>a / b\<close> on non-negative ints with \<open>b\<close> not zero (true division, correctly
  rounded), \<^verbatim>\<open>float(n)\<close> for a non-negative int, and \<^verbatim>\<open>x * y\<close> on
  non-negative floats.
\<close>

definition true_div :: "int \<Rightarrow> int \<Rightarrow> float64" where
  "true_div a b = nearest_double a b"

definition float_of_int :: "int \<Rightarrow> float64" where
  "float_of_int n = nearest_double n 1"

definition float_mul :: "float64 \<Rightarrow> float64 \<Rightarrow> float64" where
  "float_mul x y =
     (let f = mul_pow2 (fst x * fst y, 1) (snd x + snd y)
      in nearest_double (fst f) (snd f))"

text \<open>\<^verbatim>\<open>int(x)\<close> on a non-negative float: the fraction is cut off.\<close>

definition py_int :: "float64 \<Rightarrow> int" where
  "py_int x = (let f = mul_pow2 (fst x, 1) (snd x) in fst f div snd f)"

section \<open>src/tab2\_abnormal\_events.py: KPI cards\<close>

text \<open>
  A row of the abnormal-events data: the two columns the KPI cards read. The
  data frame is the list of its rows.
\<close>

record event_row =
  ev_street_name :: cell
  ev_trend :: cell

text \<open>The four numbers the cards show.\<close>

record kpi =
  total_streets :: nat
  increased_risk :: nat
  improved_safety :: nat
  improvement_rate :: int

text \<open>
  \<^verbatim>\<open>create_abnormal_metrics(abnormal_df)\<close>. \<^verbatim>\<open>unique()\<close> keeps one entry for each
  distinct value of the column, a missing value included.
\<close>

definition create_abnormal_metrics :: "event_row list \<Rightarrow> kpi" where
  "create_abnormal_metrics abnormal_df =
     (let total_abnormal =
            (if abnormal_df \<noteq> [] then length (remdups (map ev_street_name abnormal_df)) else 0);
          high_risk_routes =
            (if abnormal_df \<noteq> []
             then length (filter (\<lambda>r. ev_trend r = Str ''Increase'') abnormal_df) else 0);
          improved_routes =
            (if abnormal_df \<noteq> []
             then length (filter (\<lambda>r. ev_trend r = Str ''Decrease'') abnormal_df) else 0);
          improvement_rate =
            (if total_abnormal > 0
             then py_int (float_mul (true_div (int improved_routes) (int total_abnormal))
                                   (float_of_int 100))
             else 0)
      in \<lparr>total_streets = total_abnormal, increased_risk = high_risk_routes,
          improved_safety = improved_routes, improvement_rate = improvement_rate\<rparr>)"

text \<open>
  Test data: \<open>n\<close> rows on the \<open>n\<close> streets \<open>Street 0\<close>, \<open>Street 1\<close> and so on, the
  first \<open>k\<close> with a decreasing trend and the others with an increasing one.
\<close>

definition events_sample :: "nat \<Rightarrow> nat \<Rightarrow> event_row list" where
  "events_sample n k =
     map (\<lambda>i. \<lparr>ev_street_name = Str (''Street '' @ digits i),
               ev_trend = (if i < k then Str ''Decrease'' else Str ''Increase'')\<rparr>) [0..<n]"

section \<open>The daily street data\<close>

text \<open>
  A row of \<^verbatim>\<open>daily_street_data.csv\<close> after \<^verbatim>\<open>pd.to_datetime\<close>: the road name,
  the date as a day number (days since 1970-01-01; \<open>None\<close> is NaT) and the
  number of cyclists (\<open>None\<close> is NaN). The other columns are the rest of the
  record. A data frame is the list of its rows.
\<close>

record daily_row =
  road_name :: cell
  date :: "int option"
  daily_cyclists :: "int option"

definition days_order :: "string list" where
  "days_order =
     [''Monday'', ''Tuesday'', ''Wednesday'', ''Thursday'', ''Friday'', ''Saturday'', ''Sunday'']"

text \<open>\<^verbatim>\<open>Timestamp.day_name()\<close>: day 0 was a Thursday.\<close>

definition day_name :: "int \<Rightarrow> string" where
  "day_name d = days_order ! nat ((d + 3) mod 7)"

text \<open>The \<^verbatim>\<open>day_of_week\<close> column: missing where the date is.\<close>

definition day_of_week :: "'z daily_row_scheme \<Rightarrow> string option" where
  "day_of_week r = map_option day_name (date r)"

text \<open>\<^verbatim>\<open>frame['daily_cyclists'].sum()\<close>: missing values are skipped.\<close>

definition cyclists_sum :: "'z daily_row_scheme list \<Rightarrow> int" where
  "cyclists_sum rows = sum_list (map (\<lambda>r. case daily_cyclists r of None \<Rightarrow> 0 | Some n \<Rightarrow> n) rows)"

section \<open>utils/trend-metadata.py\<close>

text \<open>
  A row of \<open>street_data\<close>, the rows of the daily data kept for one street: the
  date as a day number (\<open>None\<close> is NaT) and \<open>daily_cyclists\<close> (\<open>None\<close> is NaN).
  pandas reads the column as int64 when every value in the file is a whole
  number and as float64 otherwise, so a value is any number here. The other
  columns are the rest of the record.
\<close>

record street_data_row =
  sd_date :: "int option"
  sd_daily_cyclists :: "real option"

text \<open>The \<^verbatim>\<open>day_of_week\<close> column that the script adds: missing where the date is.\<close>

definition sd_day_of_week :: "'z street_data_row_scheme \<Rightarrow> string option" where
  "sd_day_of_week r = map_option day_name (sd_date r)"

text \<open>
  \<^verbatim>\<open>frame['daily_cyclists'].sum()\<close>: missing values are skipped. The sum is the
  exact one. pandas adds in int64 or in float64, which gives the exact sum as
  long as the values are whole numbers whose absolute values add up to at most
  \<open>2^53\<close> (or whole numbers and halves, up to \<open>2^52\<close>).
\<close>

definition daily_cyclists_sum :: "'z street_data_row_scheme list \<Rightarrow> real" where
  "daily_cyclists_sum rows =
     sum_list (map (\<lambda>r. case sd_daily_cyclists r of None \<Rightarrow> 0 | Some v \<Rightarrow> v) rows)"

text \<open>\<^verbatim>\<open>int(x)\<close> on the sum of a column: the fraction is cut off, towards zero.\<close>

definition int_of_float :: "real \<Rightarrow> int" where
  "int_of_float x = (if 0 \<le> x then \<lfloor>x\<rfloor> else \<lceil>x\<rceil>)"

text \<open>
  \<^verbatim>\<open>street_data.groupby('date').agg({'daily_cyclists': 'sum'})\<close>: one row for
  each date that occurs, in ascending order, with the sum of the group; rows
  without a date belong to no group.
\<close>

definition daily_aggregated :: "'z street_data_row_scheme list \<Rightarrow> (int \<times> real) list" where
  "daily_aggregated street_data =
     map (\<lambda>d. (d, daily_cyclists_sum (filter (\<lambda>r. sd_date r = Some d) street_data)))
       (sort (remdups (List.map_filter sd_date street_data)))"

text \<open>
  The weekly pattern: for each day of the week, under the lower-cased name,
  \<^verbatim>\<open>int(day_data['daily_cyclists'].sum())\<close> over the rows of \<open>street_data\<close>
  itself that fall on that day.
\<close>

definition weekly_pattern :: "'z street_data_row_scheme list \<Rightarrow> (string \<times> int) list" where
  "weekly_pattern street_data =
     map (\<lambda>day. (lower day,
                  int_of_float
                    (daily_cyclists_sum (filter (\<lambda>r. sd_day_of_week r = Some day) street_data))))
       days_order"

text \<open>The total: \<^verbatim>\<open>int(daily_aggregated['daily_cyclists'].sum())\<close>, of the per-date sums.\<close>

definition stats_total_cyclists :: "'z street_data_row_scheme list \<Rightarrow> int" where
  "stats_total_cyclists street_data =
     int_of_float (sum_list (map snd (daily_aggregated street_data)))"

text \<open>
  The vocabulary of the claim about the total: the number of cyclists of a row
  as a whole number, the rows whose date falls on weekday \<open>i\<close> (0 is Monday; day
  0 of the calendar, 1970-01-01, was a Thursday), and the cyclists of a weekday.
\<close>

definition whole_cyclists :: "'z street_data_row_scheme \<Rightarrow> int" where
  "whole_cyclists r = (case sd_daily_cyclists r of None \<Rightarrow> 0 | Some v \<Rightarrow> \<lfloor>v\<rfloor>)"

definition on_weekday :: "int \<Rightarrow> 'z street_data_row_scheme \<Rightarrow> bool" where
  "on_weekday i r = (case sd_date r of None \<Rightarrow> False | Some d \<Rightarrow> (d + 3) mod 7 = i)"

definition weekday_cyclists :: "int \<Rightarrow> 'z street_data_row_scheme list \<Rightarrow> int" where
  "weekday_cyclists i rows = sum_list (map whole_cyclists (filter (on_weekday i) rows))"

text \<open>
  Test data. In the first, 1970-01-05 (a Monday) has two rows, 1970-01-06 one,
  1970-01-07 one without a count and 1970-01-12 (a Monday again) one; one row
  has no date. In the second, a Monday and a Tuesday have half a cyclist each.
\<close>

definition week_sample :: "street_data_row list" where
  "week_sample =
     [\<lparr>sd_date = Some 4, sd_daily_cyclists = Some 3\<rparr>,
      \<lparr>sd_date = Some 4, sd_daily_cyclists = Some 2\<rparr>,
      \<lparr>sd_date = Some 5, sd_daily_cyclists = Some 4\<rparr>,
      \<lparr>sd_date = None, sd_daily_cyclists = Some 9\<rparr>,
      \<lparr>sd_date = Some 6, sd_daily_cyclists = None\<rparr>,
      \<lparr>sd_date = Some 11, sd_daily_cyclists = Some 1\<rparr>]"

definition halves_sample :: "street_data_row list" where
  "halves_sample =
     [\<lparr>sd_date = Some 4, sd_daily_cyclists = Some 0.5\<rparr>,
      \<lparr>sd_date = Some 5, sd_daily_cyclists = Some 0.5\<rparr>]"

section \<open>utils/trend\_extractor.py: the day-of-week totals\<close>

text \<open>
  \<^verbatim>\<open>s.upper()\<close>: a-z and the lower-case letters of Latin-1 move down by 32 and
  the sharp s becomes \<open>SS\<close>. The micro sign and the y with diaeresis, whose
  upper-case forms lie beyond code point 255 and are the upper-case forms of no
  other 8-bit character, stand for them.
\<close>

definition upper_char :: "char \<Rightarrow> string" where
  "upper_char c =
     (let n = (of_char c :: nat)
      in if (97 \<le> n \<and> n \<le> 122) \<or> (224 \<le> n \<and> n \<le> 254 \<and> n \<noteq> 247)
         then [char_of (n - 32)]
         else if n = 223 then ''SS'' else [c])"

definition upper :: "string \<Rightarrow> string" where
  "upper s = concat (map upper_char s)"

text \<open>
  One element of \<^verbatim>\<open>series.str.contains(pat, case=False, na=False, regex=False)\<close>:
  pandas tests \<^verbatim>\<open>pat.upper() in x.upper()\<close> on a string and gives \<open>na\<close> for
  anything else.
\<close>

definition contains_nocase :: "string \<Rightarrow> cell \<Rightarrow> bool" where
  "contains_nocase pat x = (case x of Str s \<Rightarrow> py_in (upper pat) (upper s) | _ \<Rightarrow> False)"

text \<open>
  \<^verbatim>\<open>frame.drop_duplicates()\<close>: of rows that agree in every column the first is
  kept.
\<close>

fun drop_duplicates_from :: "'a list \<Rightarrow> 'a list \<Rightarrow> 'a list" where
  "drop_duplicates_from seen [] = []"
| "drop_duplicates_from seen (x # xs) =
     (if x \<in> set seen then drop_duplicates_from seen xs
      else x # drop_duplicates_from (x # seen) xs)"

definition drop_duplicates :: "'a list \<Rightarrow> 'a list" where
  "drop_duplicates xs = drop_duplicates_from [] xs"

text \<open>
  The loop over the variants of one street: the rows of every variant that
  matches something are appended to \<open>combined_data\<close>, and the variant to
  \<open>found_variants\<close>.
\<close>

fun variants_loop ::
  "'z daily_row_scheme list \<Rightarrow> string list \<Rightarrow> 'z daily_row_scheme list \<times> string list
     \<Rightarrow> 'z daily_row_scheme list \<times> string list" where
  "variants_loop df [] acc = acc"
| "variants_loop df (variant # rest) (combined_data, found_variants) =
     (let variant_data = filter (\<lambda>r. contains_nocase variant (road_name r)) df
      in if length variant_data > 0
         then variants_loop df rest (combined_data @ variant_data, found_variants @ [variant])
         else variants_loop df rest (combined_data, found_variants))"

record day_entry =
  day_totals :: "(string \<times> int) list"
  total_cyclists :: int
  variants_found :: "string list"

text \<open>
  The body of the loop over the target streets: the entry of one street.
  \<open>has_cyclists\<close> says whether the data has a \<^verbatim>\<open>daily_cyclists\<close> column.
\<close>

definition street_entry :: "'z daily_row_scheme list \<Rightarrow> bool \<Rightarrow> cell \<Rightarrow> day_entry" where
  "street_entry df has_cyclists street =
     (let street_variants = get_street_variants street;
          (combined_data, found_variants) = variants_loop df street_variants ([], []);
          combined_data =
            (if length combined_data > 0 then drop_duplicates combined_data else combined_data);
          totals =
            map (\<lambda>day.
                  (day,
                   if length combined_data > 0
                   then if has_cyclists
                        then cyclists_sum (filter (\<lambda>r. day_of_week r = Some day) combined_data)
                        else 0
                   else 0))
              days_order
      in \<lparr>day_totals = totals, total_cyclists = sum_list (map snd totals),
          variants_found = found_variants\<rparr>)"

text \<open>\<^verbatim>\<open>simple_day_data\<close>: the entries of all target streets, as written to trend.json.\<close>

definition simple_day_data ::
  "'z daily_row_scheme list \<Rightarrow> bool \<Rightarrow> cell list \<Rightarrow> (cell \<times> day_entry) list" where
  "simple_day_data df has_cyclists target_streets =
     map (\<lambda>street. (street, street_entry df has_cyclists street)) target_streets"

text \<open>
  The vocabulary of the claim about the day totals: a row matches a street when
  its road name contains one of the street's name variants, letter case ignored.
\<close>

definition matches_street :: "cell \<Rightarrow> 'z daily_row_scheme \<Rightarrow> bool" where
  "matches_street street r \<longleftrightarrow>
     list_ex (\<lambda>v. contains_nocase v (road_name r)) (get_street_variants street)"

section \<open>The dashboard loaders\<close>

text \<open>
  A loader shows Streamlit messages besides returning. A run of a piece of code
  is the messages it showed, in order, and how it ended: with the exception that
  escaped it or with the value it returned. Only the fixed part of a message
  text is kept; the formatted path or exception text is left out. A loader is
  modelled as it runs when \<^verbatim>\<open>st.cache_data\<close> holds no result for it.
\<close>

datatype message = StError string | StWarning string | StInfo string

text \<open>
  What a statement of a loader can raise: an exception of one of the classes
  above, one of another class derived from \<^verbatim>\<open>Exception\<close> (given by its name),
  or one of the two that derive from \<^verbatim>\<open>BaseException\<close> only and tell of no
  error in the program.
\<close>

datatype raised = Raised exn | RaisedOther string | KeyboardInterrupt | SystemExit

text \<open>\<^verbatim>\<open>isinstance(e, Exception)\<close>\<close>

fun is_exception :: "raised \<Rightarrow> bool" where
  "is_exception (Raised _) = True"
| "is_exception (RaisedOther _) = True"
| "is_exception KeyboardInterrupt = False"
| "is_exception SystemExit = False"

type_synonym 'a run = "message list \<times> (raised + 'a)"

text \<open>\<^verbatim>\<open>return v\<close>\<close>

definition returns :: "'a \<Rightarrow> 'a run" where
  "returns v = ([], Inr v)"

text \<open>
  A call that shows nothing itself: one into the surroundings, and one of a
  function modelled above.
\<close>

definition call :: "raised + 'a \<Rightarrow> 'a run" where
  "call r = ([], r)"


text \<open>\<^verbatim>\<open>st.error(..)\<close>, \<^verbatim>\<open>st.warning(..)\<close>, \<^verbatim>\<open>st.info(..)\<close>\<close>

definition display :: "message \<Rightarrow> unit run" where
  "display m = ([m], Inr ())"

text \<open>One statement after another: an exception in the first skips the rest.\<close>

definition and_then :: "'a run \<Rightarrow> ('a \<Rightarrow> 'b run) \<Rightarrow> 'b run" where
  "and_then m f =
     (case m of
        (out, Inl e) \<Rightarrow> (out, Inl e)
      | (out, Inr v) \<Rightarrow> (case f v of (out', r) \<Rightarrow> (out @ out', r)))"

text \<open>
  \<^verbatim>\<open>try: body  except Exception as e: handler\<close>: the handler runs for what is an
  \<^verbatim>\<open>Exception\<close>; anything else goes on to the caller.
\<close>

definition try_except :: "'a run \<Rightarrow> (raised \<Rightarrow> 'a run) \<Rightarrow> 'a run" where
  "try_except body handler =
     (case body of
        (out, Inr v) \<Rightarrow> (out, Inr v)
      | (out, Inl e) \<Rightarrow>
          if is_exception e then (case handler e of (out', r) \<Rightarrow> (out @ out', r))
          else (out, Inl e))"

text \<open>
  A \<^verbatim>\<open>pathlib.Path\<close> as its parts, \<^verbatim>\<open>'/'\<close> the first part of an absolute one.
\<close>

type_synonym path = "string list"

text \<open>\<^verbatim>\<open>p.parent\<close> and \<^verbatim>\<open>p.name\<close>\<close>

definition path_parent :: "path \<Rightarrow> path" where
  "path_parent p = (if p = [''/''] then p else butlast p)"

definition path_name :: "path \<Rightarrow> string" where
  "path_name p = (if p = [] \<or> p = [''/''] then [] else last p)"


text \<open>
  What the loaders ask of their surroundings: the directory of the running
  script, the working directory, whether a path exists, and the content of a
  file as \<^verbatim>\<open>pd.read_csv\<close> or \<^verbatim>\<open>open\<close> and \<^verbatim>\<open>json.load\<close> deliver it. Each but
  the first may raise. The type \<open>'f\<close> is that of DataFrames, with
  \<^verbatim>\<open>pd.DataFrame()\<close> the empty one. The pandas column operations that a CSV
  loader applies to the frame it has read, one after another with nothing
  shown and no branch that returns, are one function for each loader, which may
  raise as well: lines 203-218 of tab2\_abnormal\_events.py and lines 272-322 of
  tab3\_route\_popularity.py.
\<close>

record 'f world =
  script_dir :: path
  getcwd :: "raised + path"
  path_exists :: "path \<Rightarrow> raised + bool"
  read_csv :: "path \<Rightarrow> raised + 'f"
  json_load :: "path \<Rightarrow> raised + json"
  empty_frame :: 'f
  clean_events :: "'f \<Rightarrow> raised + 'f"
  prepare_routes :: "'f \<Rightarrow> raised + 'f"



text \<open>\<^verbatim>\<open>get_data_path()\<close> of tab3\_route\_popularity.py\<close>

definition get_data_path :: "('f, 'z) world_scheme \<Rightarrow> path" where
  "get_data_path w =
     (if path_name (script_dir w) = ''src''
      then path_parent (script_dir w) @ [''data'', ''processed'', ''tab3_routepopularity'']
      else [''data'', ''processed'', ''tab3_routepopularity''])"










text \<open>
  The three JSON loaders of tab3\_route\_popularity.py differ in the file, the
  texts and the value returned when there is nothing to load.
\<close>

definition json_loader_body ::
  "('f, 'z) world_scheme \<Rightarrow> string \<Rightarrow> string \<Rightarrow> json \<Rightarrow> json run" where
  "json_loader_body w file missing nothing =
     (let data_dir = get_data_path w;
          file_path = data_dir @ [file]
      in and_then (call (path_exists w file_path)) (\<lambda>found.
           if found then call (json_load w file_path)
           else and_then (display (StWarning missing)) (\<lambda>_. returns nothing)))"

definition json_loader ::
  "('f, 'z) world_scheme \<Rightarrow> string \<Rightarrow> string \<Rightarrow> string \<Rightarrow> json \<Rightarrow> json run" where
  "json_loader w file missing failed nothing =
     try_except (json_loader_body w file missing nothing)
       (\<lambda>e. and_then (display (StWarning failed)) (\<lambda>_. returns nothing))"




text \<open>\<^verbatim>\<open>load_route_popularity_data()\<close>\<close>

definition route_popularity_data_body :: "('f, 'z) world_scheme \<Rightarrow> 'f run" where
  "route_popularity_data_body w =
     (let data_dir = get_data_path w;
          file_path = data_dir @ [''dlr-route-popularity.csv'']
      in and_then (call (path_exists w file_path)) (\<lambda>found.
           if \<not> found
           then and_then (display (StError ''Route popularity CSV not found at'')) (\<lambda>_.
                returns (empty_frame w))
           else and_then (call (read_csv w file_path)) (\<lambda>df.
                and_then (call (prepare_routes w df)) returns)))"

definition load_route_popularity_data :: "('f, 'z) world_scheme \<Rightarrow> 'f run" where
  "load_route_popularity_data w =
     try_except (route_popularity_data_body w)
       (\<lambda>e. and_then (display (StError ''Error loading route popularity data'')) (\<lambda>_.
            and_then (display (StError ''Traceback'')) (\<lambda>_.
            returns (empty_frame w))))"



section \<open>utils/street-extractor.py\<close>

text \<open>
  The script works on geometries through shapely, geopandas and the regular
  expressions of pandas. What these compute is a parameter of the model: \<open>'g\<close>
  is the type of geometries, and a library gives the operations the script
  calls. \<^verbatim>\<open>unary_union\<close> and \<^verbatim>\<open>linemerge\<close> may raise, and so may the
  compilation of a regular expression, which yields the test that
  \<^verbatim>\<open>re.search\<close> makes on a string; the script has handlers for these.
\<close>

record 'g library =
  to_3857 :: "'g \<Rightarrow> 'g"
  to_4326 :: "'g \<Rightarrow> 'g"
  buffer :: "'g \<Rightarrow> real \<Rightarrow> 'g"
  unary_union :: "'g list \<Rightarrow> exn + 'g"
  intersection :: "'g \<Rightarrow> 'g \<Rightarrow> 'g"
  explode :: "'g \<Rightarrow> 'g list"
  is_empty :: "'g \<Rightarrow> bool"
  is_valid :: "'g \<Rightarrow> bool"
  geom_length :: "'g \<Rightarrow> real"
  linemerge :: "'g \<Rightarrow> exn + 'g"
  re_compile :: "string \<Rightarrow> exn + (string \<Rightarrow> bool)"

text \<open>
  One element of \<^verbatim>\<open>series.str.lower()\<close>: a string is lower-cased, anything else
  becomes missing.
\<close>

fun str_lower :: "cell \<Rightarrow> cell" where
  "str_lower (Str s) = Str (lower s)"
| "str_lower _ = NaN"

text \<open>
  \<^verbatim>\<open>series.str.contains(pat, na=False)\<close>. The pattern is a regular expression
  (\<^verbatim>\<open>regex=True\<close> is the default): pandas compiles it and searches every string
  of the column for it; anything that is no string gives \<open>na\<close>. A pattern with
  none of the special characters of regular expressions (the backslash, code
  92, among them) stands for itself, so the search is for a substring.
\<close>

definition is_plain :: "string \<Rightarrow> bool" where
  "is_plain pat \<longleftrightarrow> (\<forall>c \<in> set pat. c \<notin> set ''.^$*+?{}[]|()'' \<and> c \<noteq> CHR 0x5C)"

definition str_contains ::
  "(string \<Rightarrow> exn + (string \<Rightarrow> bool)) \<Rightarrow> string \<Rightarrow> cell list \<Rightarrow> exn + bool list" where
  "str_contains compile pat column =
     (case (if is_plain pat then Inr (py_in pat) else compile pat) of
        Inl e \<Rightarrow> Inl e
      | Inr found \<Rightarrow> Inr (map (\<lambda>v. case v of Str s \<Rightarrow> found s | _ \<Rightarrow> False) column))"

text \<open>\<^verbatim>\<open>frame[mask]\<close>: the rows whose entry of the mask \<open>flags\<close> is true.\<close>

definition select_rows :: "bool list \<Rightarrow> 'a list \<Rightarrow> 'a list" where
  "select_rows flags rows = map snd (filter fst (zip flags rows))"

text \<open>
  A row of the OSM edges, which have a name and a ref column: the name and the
  ref of the road, each a string or missing, and the geometry.
\<close>

record 'g edge =
  edge_name :: cell
  edge_ref :: cell
  edge_geometry :: 'g

text \<open>
  \<^verbatim>\<open>get_street_geometry(street_name, all_edges)\<close>. The statements inside \<^verbatim>\<open>try\<close>
  come first; the handler turns every exception into \<^verbatim>\<open>None\<close>. When nothing
  matches, the script looks for partial matches, only to print their number:
  whether that search raises or not, the function returns \<^verbatim>\<open>None\<close>.
\<close>

definition street_geometry_body ::
  "('g, 'z) library_scheme \<Rightarrow> string \<Rightarrow> ('g, 'y) edge_scheme list \<Rightarrow> exn + 'g option" where
  "street_geometry_body lib street_name all_edges =
     (let names = map (\<lambda>e. str_lower (edge_name e)) all_edges;
          refs = map (\<lambda>e. str_lower (edge_ref e)) all_edges
      in case str_contains (re_compile lib) street_name names of
           Inl e \<Rightarrow> Inl e
         | Inr by_name \<Rightarrow>
         (case str_contains (re_compile lib) street_name refs of
           Inl e \<Rightarrow> Inl e
         | Inr by_ref \<Rightarrow>
         (case (let matches = select_rows (map2 (\<or>) by_name by_ref) all_edges
                in if matches = [] \<and> py_in ''kill lane'' street_name
                   then (case str_contains (re_compile lib) ''r830'' refs of
                           Inl e \<Rightarrow> Inl e
                         | Inr by_r830 \<Rightarrow> Inr (select_rows by_r830 all_edges))
                   else Inr matches) of
           Inl e \<Rightarrow> Inl e
         | Inr matches \<Rightarrow>
             if matches = [] then Inr None
             else (case unary_union lib (map edge_geometry matches) of
                     Inl e \<Rightarrow> Inl e
                   | Inr u \<Rightarrow>
                       (case linemerge lib u of
                          Inl e \<Rightarrow> Inl e
                        | Inr merged \<Rightarrow> Inr (Some merged))))))"

definition get_street_geometry ::
  "('g, 'z) library_scheme \<Rightarrow> string \<Rightarrow> ('g, 'y) edge_scheme list \<Rightarrow> 'g option" where
  "get_street_geometry lib street_name all_edges =
     (case street_geometry_body lib street_name all_edges of Inl e \<Rightarrow> None | Inr r \<Rightarrow> r)"

text \<open>
  \<^verbatim>\<open>trim_geometry_to_points(road_geom, points_gdf, buffer_m)\<close>; \<open>points\<close> are the
  geometries of the rows of \<open>points_gdf\<close>. An exception of \<^verbatim>\<open>unary_union\<close> leaves
  the function; one of \<^verbatim>\<open>linemerge\<close> is handled: the union itself is taken.
\<close>

definition trim_geometry_to_points ::
  "('g, 'z) library_scheme \<Rightarrow> 'g \<Rightarrow> 'g list \<Rightarrow> real \<Rightarrow> exn + 'g option" where
  "trim_geometry_to_points lib road_geom points buffer_m =
     (let road = to_3857 lib road_geom;
          points_proj = map (to_3857 lib) points
      in case unary_union lib (map (\<lambda>p. buffer lib p buffer_m) points_proj) of
           Inl e \<Rightarrow> Inl e
         | Inr buffer_union \<Rightarrow>
             (let clipped = explode lib (intersection lib road buffer_union);
                  clipped = filter (\<lambda>g. \<not> is_empty lib g) clipped;
                  valid_geoms = filter (\<lambda>g. is_valid lib g \<and> geom_length lib g > 0) clipped
              in if clipped = [] then Inr None
                 else if valid_geoms = [] then Inr None
                 else (case unary_union lib valid_geoms of
                         Inl e \<Rightarrow> Inl e
                       | Inr u \<Rightarrow>
                           Inr (Some (to_4326 lib
                                  (case linemerge lib u of
                                     Inl e \<Rightarrow> u
                                   | Inr merged \<Rightarrow> merged))))))"

text \<open>
  The vocabulary of the claim about \<^verbatim>\<open>get_street_geometry\<close>: the lower-cased
  name or ref of an edge contains the text as a substring.
\<close>

definition cell_contains :: "string \<Rightarrow> cell \<Rightarrow> bool" where
  "cell_contains sub v = (case v of Str s \<Rightarrow> py_in sub s | _ \<Rightarrow> False)"

definition name_or_ref_contains :: "string \<Rightarrow> ('g, 'y) edge_scheme \<Rightarrow> bool" where
  "name_or_ref_contains part e \<longleftrightarrow>
     cell_contains part (str_lower (edge_name e)) \<or> cell_contains part (str_lower (edge_ref e))"

definition ref_contains :: "string \<Rightarrow> ('g, 'y) edge_scheme \<Rightarrow> bool" where
  "ref_contains part e \<longleftrightarrow> cell_contains part (str_lower (edge_ref e))"

text \<open>
  Test data: geometry along one straight road. A position is the distance in
  metres from the start of the road; a line or an area is given by the
  stretches it covers, in ascending order and apart from each other. A line of
  one stretch is a LineString and a line of several a MultiLineString. Both
  coordinate systems are the same here, so a change of system changes nothing.
\<close>

datatype axis_geom = Pt real | Line "(real \<times> real) list" | Area "(real \<times> real) list"

fun stretches :: "axis_geom \<Rightarrow> (real \<times> real) list" where
  "stretches (Pt x) = [(x, x)]"
| "stretches (Line ps) = ps"
| "stretches (Area ps) = ps"

text \<open>What two stretches have in common, and the joining of stretches that meet.\<close>

definition clip :: "real \<times> real \<Rightarrow> real \<times> real \<Rightarrow> (real \<times> real) list" where
  "clip p q =
     (if max (fst p) (fst q) \<le> min (snd p) (snd q)
      then [(max (fst p) (fst q), min (snd p) (snd q))] else [])"

fun join_stretches :: "(real \<times> real) list \<Rightarrow> (real \<times> real) list" where
  "join_stretches (p # q # ps) =
     (if fst q \<le> snd p then join_stretches ((fst p, max (snd p) (snd q)) # ps)
      else p # join_stretches (q # ps))"
| "join_stretches ps = ps"

text \<open>
  The operations on this geometry. \<^verbatim>\<open>unary_union\<close> always succeeds;
  \<^verbatim>\<open>linemerge\<close> takes a MultiLineString and raises ValueError for anything else,
  a single LineString included, as shapely does. The test patterns are plain
  texts: a regular expression is refused.
\<close>

definition axis_union :: "axis_geom list \<Rightarrow> exn + axis_geom" where
  "axis_union gs =
     (let ps = join_stretches (sort_key fst (concat (map stretches gs)))
      in Inr (case gs of Area _ # _ \<Rightarrow> Area ps | _ \<Rightarrow> Line ps))"

definition axis_intersection :: "axis_geom \<Rightarrow> axis_geom \<Rightarrow> axis_geom" where
  "axis_intersection g b =
     Line (concat (map (\<lambda>p. concat (map (clip p) (stretches b))) (stretches g)))"

fun axis_explode :: "axis_geom \<Rightarrow> axis_geom list" where
  "axis_explode (Line (p # q # ps)) = map (\<lambda>s. Line [s]) (p # q # ps)"
| "axis_explode g = [g]"

fun axis_linemerge :: "axis_geom \<Rightarrow> exn + axis_geom" where
  "axis_linemerge (Line (p # q # ps)) = Inr (Line (join_stretches (p # q # ps)))"
| "axis_linemerge _ = Inl ValueError"

fun axis_buffer :: "axis_geom \<Rightarrow> real \<Rightarrow> axis_geom" where
  "axis_buffer (Pt x) r = Area [(x - r, x + r)]"
| "axis_buffer g r = Area (map (\<lambda>s. (fst s - r, snd s + r)) (stretches g))"

definition axis_library :: "axis_geom library" where
  "axis_library =
     \<lparr>to_3857 = (\<lambda>g. g), to_4326 = (\<lambda>g. g), buffer = axis_buffer,
      unary_union = axis_union, intersection = axis_intersection, explode = axis_explode,
      is_empty = (\<lambda>g. stretches g = []), is_valid = (\<lambda>g. True),
      geom_length = (\<lambda>g. sum_list (map (\<lambda>s. snd s - fst s) (stretches g))),
      linemerge = axis_linemerge, re_compile = (\<lambda>pat. Inl ValueError)\<rparr>"

text \<open>Two roads of one edge each, and a road of two edges that lie apart.\<close>

definition sample_edges :: "axis_geom edge list" where
  "sample_edges =
     [\<lparr>edge_name = Str ''West Pier'', edge_ref = NaN, edge_geometry = Line [(0, 1000)]\<rparr>,
      \<lparr>edge_name = Str ''Marine Road'', edge_ref = Str ''R119'',
       edge_geometry = Line [(2000, 2300)]\<rparr>,
      \<lparr>edge_name = Str ''Kill Avenue'', edge_ref = Str ''R830'',
       edge_geometry = Line [(3000, 3400)]\<rparr>,
      \<lparr>edge_name = NaN, edge_ref = Str ''R830'', edge_geometry = Line [(3500, 3900)]\<rparr>]"


text \<open>
  \<^verbatim>\<open>s.split()\<close> without a separator: the words between runs of white space;
  \<open>cur\<close> holds the word being read, reversed.
\<close>

fun split_ws_acc :: "string \<Rightarrow> string \<Rightarrow> string list" where
  "split_ws_acc cur [] = (if cur = [] then [] else [rev cur])"
| "split_ws_acc cur (c # cs) =
     (if is_space c
      then (if cur = [] then split_ws_acc [] cs else rev cur # split_ws_acc [] cs)
      else split_ws_acc (c # cur) cs)"

definition split_ws :: "string \<Rightarrow> string list" where
  "split_ws s = split_ws_acc [] s"

text \<open>
  A row of the cyclist points: the lower-cased, stripped road name that
  \<^verbatim>\<open>main\<close> adds as \<open>road_name_clean\<close> (missing where the road name is) and the
  point.
\<close>

record 'g point_row =
  road_name_clean :: cell
  point :: 'g

text \<open>\<^verbatim>\<open>gdf_points[gdf_points["road_name_clean"].str.contains(pat, na=False)]\<close>\<close>

definition points_containing ::
  "('g, 'z) library_scheme \<Rightarrow> string \<Rightarrow> ('g, 'y) point_row_scheme list
     \<Rightarrow> exn + ('g, 'y) point_row_scheme list" where
  "points_containing lib pat gdf_points =
     (case str_contains (re_compile lib) pat (map road_name_clean gdf_points) of
        Inl e \<Rightarrow> Inl e
      | Inr flags \<Rightarrow> Inr (select_rows flags gdf_points))"

text \<open>
  The search for similar names that \<^verbatim>\<open>main\<close> makes, only to print, when no point
  has the clean name of the street: it can raise.
\<close>

definition debug_search ::
  "('g, 'z) library_scheme \<Rightarrow> ('g, 'y) point_row_scheme list \<Rightarrow> string \<Rightarrow> exn + unit" where
  "debug_search lib gdf_points street =
     (if filter (\<lambda>r. road_name_clean r = Str street) gdf_points = []
      then for_loop
             (\<lambda>_ part. if length part > 3
                        then (case points_containing lib part gdf_points of
                                Inl e \<Rightarrow> Inl e
                              | Inr partial_matches \<Rightarrow> Inr ())
                        else Inr ())
             () (split_ws street)
      else Inr ())"

text \<open>
  The parts of a street name: it is cut at every \<open>&\<close>, then the pieces at every
  \<open>/\<close>, and so on with \<open>and\<close>, the comma and the semicolon; the pieces of a cut
  are stripped.
\<close>

definition split_step :: "string list \<Rightarrow> string \<Rightarrow> string list" where
  "split_step parts sep =
     concat (map (\<lambda>part. if py_in sep part then map strip (split part sep) else [part]) parts)"

definition name_parts :: "string \<Rightarrow> string list" where
  "name_parts street = foldl split_step [street] [''&'', ''/'', ''and'', '','', '';'']"

text \<open>
  The cyclist points of a part: those whose road name contains the part, or
  else those of the first word of the part, longer than three characters, that
  some road name contains.
\<close>

fun word_points ::
  "('g, 'z) library_scheme \<Rightarrow> ('g, 'y) point_row_scheme list \<Rightarrow> string list
     \<Rightarrow> exn + ('g, 'y) point_row_scheme list" where
  "word_points lib gdf_points [] = Inr []"
| "word_points lib gdf_points (word # rest) =
     (if length word > 3
      then (case points_containing lib word gdf_points of
              Inl e \<Rightarrow> Inl e
            | Inr found \<Rightarrow> if found \<noteq> [] then Inr found else word_points lib gdf_points rest)
      else word_points lib gdf_points rest)"

definition subset_points ::
  "('g, 'z) library_scheme \<Rightarrow> ('g, 'y) point_row_scheme list \<Rightarrow> string
     \<Rightarrow> exn + ('g, 'y) point_row_scheme list" where
  "subset_points lib gdf_points part =
     (case points_containing lib part gdf_points of
        Inl e \<Rightarrow> Inl e
      | Inr found \<Rightarrow>
          if found = [] then word_points lib gdf_points (split_ws part) else Inr found)"

text \<open>
  The body of the loop over the parts, in two steps: the trimmed geometry of a
  part, \<^verbatim>\<open>None\<close> where the loop goes on to the next part without one, and its
  addition to \<open>all_parts\<close>.
\<close>

definition part_trimmed ::
  "('g, 'z) library_scheme \<Rightarrow> ('g, 'x) edge_scheme list \<Rightarrow> ('g, 'y) point_row_scheme list
     \<Rightarrow> string \<Rightarrow> exn + 'g option" where
  "part_trimmed lib gdf_edges gdf_points part =
     (if part = [] \<or> strip part = [] then Inr None
      else (case get_street_geometry lib part gdf_edges of
              None \<Rightarrow> Inr None
            | Some osm_geom \<Rightarrow>
                (case subset_points lib gdf_points part of
                   Inl e \<Rightarrow> Inl e
                 | Inr nearby \<Rightarrow>
                     if nearby = [] then Inr None
                     else trim_geometry_to_points lib osm_geom (map point nearby) 25)))"

definition part_step ::
  "('g, 'z) library_scheme \<Rightarrow> ('g, 'x) edge_scheme list \<Rightarrow> ('g, 'y) point_row_scheme list
     \<Rightarrow> 'g list \<Rightarrow> string \<Rightarrow> exn + 'g list" where
  "part_step lib gdf_edges gdf_points all_parts part =
     (case part_trimmed lib gdf_edges gdf_points part of
        Inl e \<Rightarrow> Inl e
      | Inr None \<Rightarrow> Inr all_parts
      | Inr (Some trimmed) \<Rightarrow> Inr (all_parts @ [trimmed]))"

text \<open>A feature of the output: the name of the street, its clean name and the geometry.\<close>

record 'g feature =
  ft_street_name :: string
  ft_original_clean_name :: string
  ft_geometry :: 'g

text \<open>
  The body of the loop over the streets. An exception of the union of the
  parts is handled: the street is left out.
\<close>

definition street_step ::
  "('g, 'z) library_scheme \<Rightarrow> ('g, 'x) edge_scheme list \<Rightarrow> ('g, 'y) point_row_scheme list
     \<Rightarrow> 'g feature list \<Rightarrow> string \<Rightarrow> exn + 'g feature list" where
  "street_step lib gdf_edges gdf_points final_segments original_name =
     (let street = strip (lower original_name)
      in case debug_search lib gdf_points street of
           Inl e \<Rightarrow> Inl e
         | Inr _ \<Rightarrow>
             (case for_loop (part_step lib gdf_edges gdf_points) [] (name_parts street) of
                Inl e \<Rightarrow> Inl e
              | Inr all_parts \<Rightarrow>
                  if all_parts = [] then Inr final_segments
                  else (case unary_union lib all_parts of
                          Inl e \<Rightarrow> Inr final_segments
                        | Inr merged_trimmed \<Rightarrow>
                            Inr (final_segments @
                                 [\<lparr>ft_street_name = original_name,
                                   ft_original_clean_name = street,
                                   ft_geometry = merged_trimmed\<rparr>]))))"

text \<open>The frame that is written: its columns and its rows.\<close>

record 'g geo_frame =
  frame_columns :: "string list"
  frame_rows :: "'g feature list"

text \<open>
  \<^verbatim>\<open>main()\<close> from the point where the two input files are read: \<open>file_a\<close> is the
  column of the street names, all of them strings, \<open>gdf_points\<close> the cyclist
  points, and \<open>osm\<close> what
  the preparation of the OSM edges gives, which is inside a \<^verbatim>\<open>try\<close>. The result
  is the frame handed to \<^verbatim>\<open>to_file\<close>, or \<^verbatim>\<open>None\<close> when \<^verbatim>\<open>main\<close> returns before;
  an exception that nothing handles ends the script.
\<close>

definition main ::
  "('g, 'z) library_scheme \<Rightarrow> string list \<Rightarrow> ('g, 'y) point_row_scheme list
     \<Rightarrow> exn + ('g, 'x) edge_scheme list \<Rightarrow> exn + 'g geo_frame option" where
  "main lib file_a gdf_points osm =
     (case osm of
        Inl e \<Rightarrow> Inr None
      | Inr gdf_edges \<Rightarrow>
          (case for_loop (street_step lib gdf_edges gdf_points) [] file_a of
             Inl e \<Rightarrow> Inl e
           | Inr final_segments \<Rightarrow>
               Inr (Some
                 (if final_segments = []
                  then \<lparr>frame_columns = [''street_name'', ''original_clean_name'', ''geometry''],
                        frame_rows = []\<rparr>
                  else \<lparr>frame_columns = [''street_name'', ''original_clean_name'', ''geometry''],
                        frame_rows = final_segments\<rparr>))))"

text \<open>
  The vocabulary of the claim about the output: the feature of a street, if it
  has one. It has one when at least one of its parts has a trimmed geometry and
  the union of these is computed.
\<close>

definition street_feature ::
  "('g, 'z) library_scheme \<Rightarrow> ('g, 'x) edge_scheme list \<Rightarrow> ('g, 'y) point_row_scheme list
     \<Rightarrow> string \<Rightarrow> 'g feature option" where
  "street_feature lib gdf_edges gdf_points original_name =
     (let street = strip (lower original_name);
          trimmed =
            List.map_filter
              (\<lambda>part. case part_trimmed lib gdf_edges gdf_points part of
                         Inr (Some t) \<Rightarrow> Some t
                       | _ \<Rightarrow> None)
              (name_parts street)
      in if trimmed = [] then None
         else (case unary_union lib trimmed of
                 Inl e \<Rightarrow> None
               | Inr u \<Rightarrow>
                   Some \<lparr>ft_street_name = original_name, ft_original_clean_name = street,
                         ft_geometry = u\<rparr>))"

text \<open>Test data: cyclist points on the roads of the sample edges.\<close>

definition sample_points :: "axis_geom point_row list" where
  "sample_points =
     [\<lparr>road_name_clean = Str ''west pier'', point = Pt 100\<rparr>,
      \<lparr>road_name_clean = Str ''kill lane'', point = Pt 3100\<rparr>,
      \<lparr>road_name_clean = NaN, point = Pt 3200\<rparr>,
      \<lparr>road_name_clean = Str ''kill lane'', point = Pt 3600\<rparr>]"

(*PROPERTIES*)

section \<open>Properties of the string functions\<close>

lemma split_acc_not_Nil: "split_acc sep cur s \<noteq> []"
  by (induction sep cur s rule: split_acc.induct) auto

lemma join_Cons: "ps \<noteq> [] \<Longrightarrow> join sep (p # ps) = p @ sep @ join sep ps"
  by (cases ps) auto

text \<open>Joining the pieces with the separator gives the string back.\<close>

lemma join_split_acc: "sep \<noteq> [] \<Longrightarrow> join sep (split_acc sep cur s) = rev cur @ s"
proof (induction sep cur s rule: split_acc.induct)
  case (1 sep cur)
  then show ?case by simp
next
  case (2 sep cur c cs)
  show ?case
  proof (cases "prefix sep (c # cs)")
    case True
    with \<open>sep \<noteq> []\<close> have d: "sep @ drop (length sep - 1) cs = c # cs"
      by (cases sep) (auto simp: prefix_def)
    from True \<open>sep \<noteq> []\<close>
    have "split_acc sep cur (c # cs) = rev cur # split_acc sep [] (drop (length sep - 1) cs)"
      by simp
    moreover from 2(1) True \<open>sep \<noteq> []\<close>
    have "join sep (split_acc sep [] (drop (length sep - 1) cs)) = drop (length sep - 1) cs"
      by simp
    ultimately have "join sep (split_acc sep cur (c # cs)) = rev cur @ sep @ drop (length sep - 1) cs"
      by (simp add: join_Cons split_acc_not_Nil)
    with d show ?thesis by simp
  next
    case False
    with 2 show ?thesis by simp
  qed
qed

lemma join_split: "sep \<noteq> [] \<Longrightarrow> join sep (split s sep) = s"
  by (simp add: split_def join_split_acc)

text \<open>No piece of a split on one character holds that character.\<close>

lemma split_acc_char_free:
  "c \<notin> set cur \<Longrightarrow> p \<in> set (split_acc [c] cur s) \<Longrightarrow> c \<notin> set p"
proof (induction "[c]" cur s arbitrary: p rule: split_acc.induct)
  case (1 cur)
  then show ?case by simp
next
  case (2 cur d ds)
  then show ?case
    by (auto split: if_splits)
qed

lemma split_char_free: "p \<in> set (split s [c]) \<Longrightarrow> c \<notin> set p"
  using split_acc_char_free [of c "[]" p s] by (simp add: split_def)

lemma py_in_char: "py_in [c] s \<longleftrightarrow> c \<in> set s"
  by (induction s) (auto simp: py_in_def sublist_Cons_right)

lemma set_strip: "set (strip s) \<subseteq> set s"
proof -
  have "set (strip s) \<subseteq> set (dropWhile is_space s)"
    unfolding strip_def using set_dropWhileD [of _ is_space "rev (dropWhile is_space s)"]
    by auto
  also have "\<dots> \<subseteq> set s"
    using set_dropWhileD [of _ is_space s] by auto
  finally show ?thesis .
qed

section \<open>Properties of utils/trend\_extractor.py\<close>

text \<open>
  C8, as the code has it. A value that is not a string gives the empty list. A
  string with a \<open>/\<close> is split on \<open>/\<close> only: its variants are the stripped
  non-empty pieces between the \<open>/\<close>, so no variant holds a \<open>/\<close> and an \<open>&\<close> inside a
  piece stays. A string with an \<open>&\<close> and no \<open>/\<close> is split on \<open>&\<close> in the same way.
  Any other string gives its stripped name alone when that is not empty, and the
  empty list when it is. The result never holds an empty string.
\<close>

theorem get_street_variants_cases:
  "get_street_variants NaN = [] \<and> get_street_variants (Num n) = [] \<and>
   (py_in ''/'' s \<longrightarrow>
      get_street_variants (Str s) = filter (\<lambda>v. v \<noteq> []) (map strip (split s ''/'')) \<and>
      (\<forall>v \<in> set (get_street_variants (Str s)). CHR ''/'' \<notin> set v)) \<and>
   (\<not> py_in ''/'' s \<and> py_in ''&'' s \<longrightarrow>
      get_street_variants (Str s) = filter (\<lambda>v. v \<noteq> []) (map strip (split s ''&''))) \<and>
   (\<not> py_in ''/'' s \<and> \<not> py_in ''&'' s \<longrightarrow>
      get_street_variants (Str s) = (if strip s = [] then [] else [strip s])) \<and>
   [] \<notin> set (get_street_variants x)"
proof -
  have slash_free: "CHR ''/'' \<notin> set v"
    if "v \<in> set (map strip (split s ''/''))" for v
  proof -
    from that obtain p where p: "p \<in> set (split s ''/'')" and v: "v = strip p"
      by auto
    from p have "CHR ''/'' \<notin> set p" by (rule split_char_free)
    with v set_strip [of p] show ?thesis by auto
  qed
  have no_empty: "[] \<notin> set (get_street_variants x)"
    by (cases x) (simp_all add: Let_def)
  from slash_free no_empty show ?thesis
    by (simp add: Let_def)
qed

text \<open>
  The claim as written fails on a string of blanks: it has no separator, its
  stripped name is empty, and the code returns no variant at all rather than the
  single stripped name.
\<close>

theorem get_street_variants_blank_counterexample:
  "\<not> py_in ''/'' ''  '' \<and> \<not> py_in ''&'' ''  '' \<and>
   get_street_variants (Str ''  '') = [] \<and> get_street_variants (Str ''  '') \<noteq> [strip ''  '']"
  by code_simp

theorem get_street_variants_cases_witness:
  "get_street_variants (Str ''Mercer Street & Cuffe Street / Kevin Street'')
     = [''Mercer Street & Cuffe Street'', ''Kevin Street''] \<and>
   get_street_variants (Str ''Mercer Street & Cuffe Street'')
     = [''Mercer Street'', ''Cuffe Street''] \<and>
   get_street_variants (Str '' West Pier '') = [''West Pier'']"
proof -
  let ?a = "''Mercer Street & Cuffe Street / Kevin Street''"
  let ?b = "''Mercer Street & Cuffe Street''"
  let ?c = "'' West Pier ''"
  have a: "py_in ''/'' ?a" by code_simp
  have a': "filter (\<lambda>v. v \<noteq> []) (map strip (split ?a ''/''))
              = [''Mercer Street & Cuffe Street'', ''Kevin Street'']"
    by code_simp
  have b: "\<not> py_in ''/'' ?b \<and> py_in ''&'' ?b" by code_simp
  have b': "filter (\<lambda>v. v \<noteq> []) (map strip (split ?b ''&''))
              = [''Mercer Street'', ''Cuffe Street'']"
    by code_simp
  have c: "\<not> py_in ''/'' ?c \<and> \<not> py_in ''&'' ?c" by code_simp
  have c': "(if strip ?c = [] then [] else [strip ?c]) = [''West Pier'']"
    by code_simp
  from get_street_variants_cases [where s = ?a] a a'
  have 1: "get_street_variants (Str ?a) = [''Mercer Street & Cuffe Street'', ''Kevin Street'']"
    by metis
  from get_street_variants_cases [where s = ?b] b b'
  have 2: "get_street_variants (Str ?b) = [''Mercer Street'', ''Cuffe Street'']"
    by metis
  from get_street_variants_cases [where s = ?c] c c'
  have 3: "get_street_variants (Str ?c) = [''West Pier'']"
    by metis
  from 1 2 3 show ?thesis by blast
qed

section \<open>Properties of src/tab3\_route\_popularity.py\<close>

text \<open>
  C9. A missing value is Gray. Otherwise, with the lower-cased text of the value:
  Green whenever it holds \<open>increasing\<close> or \<open>improved\<close>, whatever else it holds
  (the increase test comes first); else Red when it holds \<open>decreasing\<close>,
  \<open>dropped\<close> or \<open>decline\<close>; else Gray.
\<close>

theorem get_color_cases:
  "(isna v \<longrightarrow> get_color v = ''Gray'') \<and>
   (\<not> isna v \<and> (py_in ''increasing'' (lower (py_str v)) \<or> py_in ''improved'' (lower (py_str v)))
      \<longrightarrow> get_color v = ''Green'') \<and>
   (\<not> isna v \<and> \<not> py_in ''increasing'' (lower (py_str v)) \<and> \<not> py_in ''improved'' (lower (py_str v))
      \<and> (py_in ''decreasing'' (lower (py_str v)) \<or> py_in ''dropped'' (lower (py_str v))
           \<or> py_in ''decline'' (lower (py_str v)))
      \<longrightarrow> get_color v = ''Red'') \<and>
   (\<not> isna v \<and> \<not> py_in ''increasing'' (lower (py_str v)) \<and> \<not> py_in ''improved'' (lower (py_str v))
      \<and> \<not> py_in ''decreasing'' (lower (py_str v)) \<and> \<not> py_in ''dropped'' (lower (py_str v))
      \<and> \<not> py_in ''decline'' (lower (py_str v))
      \<longrightarrow> get_color v = ''Gray'')"
  by (simp add: get_color_def Let_def)

theorem get_color_cases_witness:
  "get_color NaN = ''Gray'' \<and>
   get_color (Str ''Improved after an early Decline'') = ''Green'' \<and>
   get_color (Str ''Dropped sharply'') = ''Red'' \<and>
   get_color (Str ''Stable'') = ''Gray''"
proof -
  let ?g = "Str ''Improved after an early Decline''"
  let ?r = "Str ''Dropped sharply''"
  let ?s = "Str ''Stable''"
  have g: "\<not> isna ?g \<and> py_in ''improved'' (lower (py_str ?g))
             \<and> py_in ''decline'' (lower (py_str ?g))"
    by code_simp
  have r: "\<not> isna ?r \<and> \<not> py_in ''increasing'' (lower (py_str ?r))
             \<and> \<not> py_in ''improved'' (lower (py_str ?r)) \<and> py_in ''dropped'' (lower (py_str ?r))"
    by code_simp
  have s: "\<not> isna ?s \<and> \<not> py_in ''increasing'' (lower (py_str ?s))
             \<and> \<not> py_in ''improved'' (lower (py_str ?s)) \<and> \<not> py_in ''decreasing'' (lower (py_str ?s))
             \<and> \<not> py_in ''dropped'' (lower (py_str ?s)) \<and> \<not> py_in ''decline'' (lower (py_str ?s))"
    by code_simp
  have n: "isna NaN" by simp
  from get_color_cases [of NaN] n have 1: "get_color NaN = ''Gray''" by blast
  from get_color_cases [of ?g] g have 2: "get_color ?g = ''Green''" by blast
  from get_color_cases [of ?r] r have 3: "get_color ?r = ''Red''" by blast
  from get_color_cases [of ?s] s have 4: "get_color ?s = ''Gray''" by blast
  from 1 2 3 4 show ?thesis by blast
qed

section \<open>Properties of the map bounds\<close>

lemma lowest_snoc: "py_min (lowest xs) (Finite x) = lowest (xs @ [x])"
proof (cases "xs = []")
  case True
  then show ?thesis by (simp add: lowest_def py_min_def)
next
  case False
  define m where "m = Min (set xs)"
  from False have "Min (set (xs @ [x])) = min x m"
    by (simp add: m_def)
  then have "lowest (xs @ [x]) = Finite (min x m)"
    by (simp only: lowest_def) simp
  moreover from False have "lowest xs = Finite m"
    by (simp add: lowest_def m_def)
  ultimately show ?thesis
    by (simp add: py_min_def min_def)
qed

lemma highest_snoc: "py_max (highest xs) (Finite x) = highest (xs @ [x])"
proof (cases "xs = []")
  case True
  then show ?thesis by (simp add: highest_def py_max_def)
next
  case False
  define m where "m = Max (set xs)"
  from False have "Max (set (xs @ [x])) = max x m"
    by (simp add: m_def)
  then have "highest (xs @ [x]) = Finite (max x m)"
    by (simp only: highest_def) simp
  moreover from False have "highest xs = Finite m"
    by (simp add: highest_def m_def)
  ultimately show ?thesis
    by (simp add: py_max_def max_def)
qed

lemma is_vertex_vertex_of:
  "is_vertex v \<Longrightarrow> \<exists>x y. v = JArr [JNum (Finite x), JNum (Finite y)]"
  by (induction v rule: is_vertex.induct) simp_all

lemma vertex_step_bounds_of:
  assumes "vertex_of v = Some p"
  shows "vertex_step (bounds_of pts) v = Inr (bounds_of (pts @ [p]))"
proof -
  from assms obtain x y where v: "v = JArr [JNum (Finite x), JNum (Finite y)]" and p: "p = (x, y)"
    by (induction v rule: vertex_of.induct) simp_all
  then show ?thesis
    by (simp add: vertex_step_def bounds_of_def lowest_snoc highest_snoc)
qed

lemma map_filter_append:
  "List.map_filter f (xs @ ys) = List.map_filter f xs @ List.map_filter f ys"
  by (simp add: List.map_filter_def)

lemma vertices_loop:
  "list_all is_vertex vs \<Longrightarrow>
   for_loop vertex_step (bounds_of pts) vs = Inr (bounds_of (pts @ List.map_filter vertex_of vs))"
proof (induction vs arbitrary: pts)
  case Nil
  then show ?case by (simp add: List.map_filter_simps)
next
  case (Cons v vs)
  then have "is_vertex v" and vs: "list_all is_vertex vs"
    by simp_all
  then obtain p where p: "vertex_of v = Some p"
    using is_vertex_vertex_of by fastforce
  have "for_loop vertex_step (bounds_of pts) (v # vs) = for_loop vertex_step (bounds_of (pts @ [p])) vs"
    by (simp add: vertex_step_bounds_of [OF p])
  also have "\<dots> = Inr (bounds_of ((pts @ [p]) @ List.map_filter vertex_of vs))"
    by (rule Cons.IH [OF vs])
  also have "(pts @ [p]) @ List.map_filter vertex_of vs = pts @ List.map_filter vertex_of (v # vs)"
    by (simp add: List.map_filter_simps p)
  finally show ?case .
qed

lemma ring_step_bounds_of:
  assumes "is_array r" and "list_all is_vertex (items r)"
  shows "ring_step (bounds_of pts) r = Inr (bounds_of (pts @ List.map_filter vertex_of (items r)))"
proof -
  from assms(1) obtain vs where r: "r = JArr vs"
    by (cases r) simp_all
  with assms(2) vertices_loop [of vs pts] show ?thesis
    by (simp add: ring_step_def)
qed

lemma rings_loop:
  "list_all (\<lambda>r. is_array r \<and> list_all is_vertex (items r)) rings \<Longrightarrow>
   for_loop ring_step (bounds_of pts) rings
     = Inr (bounds_of (pts @ List.map_filter vertex_of (concat (map items rings))))"
proof (induction rings arbitrary: pts)
  case Nil
  then show ?case by (simp add: List.map_filter_def)
next
  case (Cons r rings)
  then have r: "is_array r" "list_all is_vertex (items r)"
    and rest: "list_all (\<lambda>r. is_array r \<and> list_all is_vertex (items r)) rings"
    by simp_all
  from Cons.IH [OF rest, of "pts @ List.map_filter vertex_of (items r)"]
    ring_step_bounds_of [OF r, of pts]
  show ?case
    by (simp add: map_filter_append)
qed

lemma geom_step_other: "\<not> is_polygon g \<Longrightarrow> geom_step b g = Inr b"
  by (simp add: geom_step_def is_polygon_def Let_def)

lemma geom_step_polygon:
  assumes "is_polygon g" and "planar_polygon g"
  shows "geom_step (bounds_of pts) g
           = Inr (bounds_of (pts @ List.map_filter vertex_of (polygon_vertex_values g)))"
proof -
  let ?coords = "dict_get g ''coordinates'' (JArr [JArr []])"
  from assms(2) have arr: "is_array ?coords"
    and rings: "list_all (\<lambda>r. is_array r \<and> list_all is_vertex (items r)) (items ?coords)"
    by (simp_all add: planar_polygon_def Let_def)
  from arr obtain rs where rs: "?coords = JArr rs"
    by (cases ?coords) simp_all
  with rings rings_loop [of rs pts] assms(1) show ?thesis
    by (simp add: geom_step_def is_polygon_def polygon_vertex_values_def Let_def)
qed

lemma ring_vertices_Cons:
  "ring_vertices (g # gs) =
     (if is_polygon g then List.map_filter vertex_of (polygon_vertex_values g) else [])
       @ ring_vertices gs"
  by (simp add: ring_vertices_def)

lemma geoms_loop:
  "\<forall>g \<in> set gs. is_polygon g \<longrightarrow> planar_polygon g \<Longrightarrow>
   for_loop geom_step (bounds_of pts) gs = Inr (bounds_of (pts @ ring_vertices gs))"
proof (induction gs arbitrary: pts)
  case Nil
  then show ?case by (simp add: ring_vertices_def)
next
  case (Cons g gs)
  then have rest: "\<forall>g \<in> set gs. is_polygon g \<longrightarrow> planar_polygon g"
    by simp
  show ?case
  proof (cases "is_polygon g")
    case True
    with Cons.prems have "planar_polygon g" by simp
    from geom_step_polygon [OF True this, of pts]
      Cons.IH [OF rest, of "pts @ List.map_filter vertex_of (polygon_vertex_values g)"] True
    show ?thesis
      by (simp add: ring_vertices_Cons)
  next
    case False
    with geom_step_other [OF False, of "bounds_of pts"] Cons.IH [OF rest, of pts]
    show ?thesis
      by (simp add: ring_vertices_Cons)
  qed
qed

lemma for_loop_filter_same:
  "(\<And>s x. \<not> P x \<Longrightarrow> body s x = Inr s) \<Longrightarrow>
   for_loop body s (filter P xs) = for_loop body s xs"
  by (induction xs arbitrary: s) (auto split: sum.splits)

text \<open>
  C10, as the code has it. Geometries whose type is not Polygon are ignored
  entirely. When every Polygon of the list has rings that are lists of
  \<open>[lon, lat]\<close> pairs of finite numbers, the function returns: the default Dublin
  bounds when no Polygon has a ring vertex, and otherwise the least longitude,
  least latitude, greatest longitude and greatest latitude over all ring vertices
  of all Polygons.
\<close>

theorem calculate_bounds_planar:
  assumes "\<forall>g \<in> set geometries. is_polygon g \<longrightarrow> planar_polygon g"
  shows "calculate_bounds_from_geometries (filter is_polygon geometries)
           = calculate_bounds_from_geometries geometries \<and>
         calculate_bounds_from_geometries geometries =
           Inr (if ring_vertices geometries = []
                then [Finite (-6.3), Finite 53.2, Finite (-6.1), Finite 53.4]
                else [Finite (Min (fst ` set (ring_vertices geometries))),
                      Finite (Min (snd ` set (ring_vertices geometries))),
                      Finite (Max (fst ` set (ring_vertices geometries))),
                      Finite (Max (snd ` set (ring_vertices geometries)))])"
proof -
  have same: "for_loop geom_step b (filter is_polygon geometries) = for_loop geom_step b geometries"
    for b
    by (rule for_loop_filter_same) (rule geom_step_other)
  have start: "\<lparr>min_lon = Inf, min_lat = Inf, max_lon = NegInf, max_lat = NegInf\<rparr> = bounds_of []"
    by (simp add: bounds_of_def lowest_def highest_def)
  from geoms_loop [OF assms, of "[]"]
  have loop: "for_loop geom_step (bounds_of []) geometries = Inr (bounds_of (ring_vertices geometries))"
    by simp
  have "calculate_bounds_from_geometries geometries =
           Inr (if ring_vertices geometries = []
                then [Finite (-6.3), Finite 53.2, Finite (-6.1), Finite 53.4]
                else [Finite (Min (fst ` set (ring_vertices geometries))),
                      Finite (Min (snd ` set (ring_vertices geometries))),
                      Finite (Max (fst ` set (ring_vertices geometries))),
                      Finite (Max (snd ` set (ring_vertices geometries)))])"
    unfolding calculate_bounds_from_geometries_def start loop
    by (simp add: bounds_of_def lowest_def highest_def py_eq_def default_bounds_def)
  moreover have "calculate_bounds_from_geometries (filter is_polygon geometries)
           = calculate_bounds_from_geometries geometries"
    by (simp add: calculate_bounds_from_geometries_def same)
  ultimately show ?thesis by simp
qed

text \<open>
  The claim as written says the function is total on every list of GeoJSON
  geometry dicts. A Polygon whose position carries an altitude, which GeoJSON
  allows, makes the two-name unpacking of the vertex raise ValueError.
\<close>

theorem calculate_bounds_altitude_counterexample:
  "calculate_bounds_from_geometries
     [[(''type'', JStr ''Polygon''),
       (''coordinates'',
        JArr [JArr [JArr [JNum (Finite (-6.2)), JNum (Finite 53.3), JNum (Finite 12)]]])]]
   = Inl ValueError"
  by (simp add: calculate_bounds_from_geometries_def geom_step_def ring_step_def
      vertex_step_def dict_get_def)

theorem calculate_bounds_planar_witness:
  "calculate_bounds_from_geometries
     [[(''type'', JStr ''LineString''),
       (''coordinates'', JArr [JArr [JNum (Finite (-7)), JNum (Finite 50), JNum (Finite 3)]])],
      [(''type'', JStr ''Polygon''),
       (''coordinates'',
        JArr [JArr [JArr [JNum (Finite (-6.2)), JNum (Finite 53.3)],
                    JArr [JNum (Finite (-6.25)), JNum (Finite 53.1)]]])]]
   = Inr [Finite (-6.25), Finite 53.1, Finite (-6.2), Finite 53.3] \<and>
   calculate_bounds_from_geometries
     [[(''type'', JStr ''Polygon''), (''coordinates'', JArr [JArr []])],
      [(''type'', JStr ''Point'')]]
   = Inr [Finite (-6.3), Finite 53.2, Finite (-6.1), Finite 53.4]"
proof -
  let ?line = "[(''type'', JStr ''LineString''),
       (''coordinates'', JArr [JArr [JNum (Finite (-7)), JNum (Finite 50), JNum (Finite 3)]])]"
  let ?poly = "[(''type'', JStr ''Polygon''),
       (''coordinates'',
        JArr [JArr [JArr [JNum (Finite (-6.2)), JNum (Finite 53.3)],
                    JArr [JNum (Finite (-6.25)), JNum (Finite 53.1)]]])]"
  let ?hollow = "[(''type'', JStr ''Polygon''), (''coordinates'', JArr [JArr []])]"
  let ?point = "[(''type'', JStr ''Point'')]"
  have h1: "\<forall>g \<in> set [?line, ?poly]. is_polygon g \<longrightarrow> planar_polygon g"
    by (simp add: is_polygon_def planar_polygon_def dict_get_def)
  have v1: "ring_vertices [?line, ?poly] = [(-6.2, 53.3), (-6.25, 53.1)]"
    by (simp add: ring_vertices_def is_polygon_def polygon_vertex_values_def dict_get_def
        List.map_filter_simps)
  have h2: "\<forall>g \<in> set [?hollow, ?point]. is_polygon g \<longrightarrow> planar_polygon g"
    by (simp add: is_polygon_def planar_polygon_def dict_get_def)
  have v2: "ring_vertices [?hollow, ?point] = []"
    by (simp add: ring_vertices_def is_polygon_def polygon_vertex_values_def dict_get_def
        List.map_filter_simps)
  from calculate_bounds_planar [OF h1] have
    "calculate_bounds_from_geometries [?line, ?poly]
       = Inr [Finite (-6.25), Finite 53.1, Finite (-6.2), Finite 53.3]"
    unfolding v1 by simp
  moreover from calculate_bounds_planar [OF h2] have
    "calculate_bounds_from_geometries [?hollow, ?point]
       = Inr [Finite (-6.3), Finite 53.2, Finite (-6.1), Finite 53.4]"
    unfolding v2 by simp
  ultimately show ?thesis by simp
qed

section \<open>Properties of the KPI cards\<close>

text \<open>
  Rounding to an integer is to a nearest one: the result is at most one half
  away from the quotient.
\<close>

lemma round_half_even_nearest:
  assumes "0 < den"
  shows "\<bar>2 * (round_half_even num den * den - num)\<bar> \<le> den"
proof -
  define q where "q = num div den"
  define r where "r = num mod den"
  have num: "num = q * den + r"
    by (simp add: q_def r_def)
  have r: "0 \<le> r" "r < den"
    using assms by (simp_all add: r_def)
  have down: "2 * (q * den - num) = - (2 * r)" and up: "2 * ((q + 1) * den - num) = 2 * den - 2 * r"
    by (simp_all add: num algebra_simps)
  have "round_half_even num den =
      (if 2 * r < den then q else if den < 2 * r then q + 1 else if even q then q else q + 1)"
    by (simp add: round_half_even_def Let_def q_def r_def)
  then consider "round_half_even num den = q" "2 * r \<le> den"
    | "round_half_even num den = q + 1" "den \<le> 2 * r"
    by (auto split: if_splits)
  then show ?thesis
  proof cases
    case 1
    show ?thesis unfolding 1(1) down using r 1(2) by simp
  next
    case 2
    show ?thesis unfolding 2(1) up using r 2(2) by simp
  qed
qed

text \<open>
  The float model agrees with CPython on the values used below, and on
  \<^verbatim>\<open>1 / 10\<close>, a quotient that is rounded up (\<^verbatim>\<open>(0.1).hex()\<close> is
  \<^verbatim>\<open>0x1.999999999999ap-4\<close>).
\<close>

lemma true_div_29_50: "true_div 29 50 = (5224175567749775, -53)"
  by (simp add: true_div_def nearest_double_def mul_pow2_def round_half_even_def Let_def)

lemma true_div_1_10: "true_div 1 10 = (7205759403792794, -56)"
  by (simp add: true_div_def nearest_double_def mul_pow2_def round_half_even_def Let_def)

lemma float_of_int_100: "float_of_int 100 = (7036874417766400, -46)"
  by (simp add: float_of_int_def nearest_double_def mul_pow2_def round_half_even_def Let_def)

lemma float_mul_58: "float_mul (5224175567749775, -53) (7036874417766400, -46) = (8162774324609023, -47)"
  by (simp add: float_mul_def nearest_double_def mul_pow2_def round_half_even_def Let_def)

lemma py_int_57: "py_int (8162774324609023, -47) = 57"
  by (simp add: py_int_def mul_pow2_def)

text \<open>
  The three counts: Total Streets is the number of distinct values of
  \<open>street_name\<close>, Increased Risk the number of rows whose trend is \<open>Increase\<close>,
  Improved Safety the number of rows whose trend is \<open>Decrease\<close>. On an empty data
  frame all four numbers are 0.
\<close>

lemma create_abnormal_metrics_counts:
  "total_streets (create_abnormal_metrics df) = card (ev_street_name ` set df) \<and>
   increased_risk (create_abnormal_metrics df)
     = length (filter (\<lambda>r. ev_trend r = Str ''Increase'') df) \<and>
   improved_safety (create_abnormal_metrics df)
     = length (filter (\<lambda>r. ev_trend r = Str ''Decrease'') df) \<and>
   create_abnormal_metrics [] =
     \<lparr>total_streets = 0, increased_risk = 0, improved_safety = 0, improvement_rate = 0\<rparr>"
proof -
  have "length (remdups (map ev_street_name df)) = card (ev_street_name ` set df)"
    by (simp add: length_remdups_card_conv)
  then show ?thesis
    by (cases "df = []") (simp_all add: create_abnormal_metrics_def Let_def)
qed

text \<open>
  C7. The Improvement Rate card is to show the whole percent of the streets that
  improved: Improved Safety divided by Total Streets, times 100, with the
  fraction cut off. On 50 rows for 50 streets of which 29 have the trend
  \<open>Decrease\<close> the three counts are 50, 21 and 29 and the whole percent is 58, but
  the card shows 57: the code computes \<^verbatim>\<open>int(29 / 50 * 100)\<close> in floats, where
  the product is 57.99999999999999.
\<close>

theorem create_abnormal_metrics_rate_slip:
  "create_abnormal_metrics (events_sample 50 29) =
     \<lparr>total_streets = 50, increased_risk = 21, improved_safety = 29, improvement_rate = 57\<rparr> \<and>
   \<lfloor>(29 :: rat) / 50 * 100\<rfloor> = 58"
proof -
  have t: "length (remdups (map ev_street_name (events_sample 50 29))) = 50"
    by code_simp
  have i: "length (filter (\<lambda>r. ev_trend r = Str ''Decrease'') (events_sample 50 29)) = 29"
    by code_simp
  have h: "length (filter (\<lambda>r. ev_trend r = Str ''Increase'') (events_sample 50 29)) = 21"
    by code_simp
  have n: "events_sample 50 29 \<noteq> []"
    by code_simp
  have r: "py_int (float_mul (true_div 29 50) (float_of_int 100)) = 57"
    by (simp only: true_div_29_50 float_of_int_100 float_mul_58 py_int_57)
  have e: "\<lfloor>(29 :: rat) / 50 * 100\<rfloor> = 58"
    by simp
  from t i h n r e show ?thesis
    by (simp add: create_abnormal_metrics_def Let_def)
qed

section \<open>Properties of sums by group\<close>

lemma sum_list_no_key: "j \<notin> set ks \<Longrightarrow> (\<Sum>k\<leftarrow>ks. if k = j then c else 0) = (0 :: int)"
  by (induction ks) auto

lemma sum_list_single_key:
  "distinct ks \<Longrightarrow> j \<in> set ks \<Longrightarrow> (\<Sum>k\<leftarrow>ks. if k = j then c else 0) = (c :: int)"
  by (induction ks) (auto simp: sum_list_no_key)

text \<open>
  Grouping loses nothing: the sums of the groups of the keys \<open>ks\<close> add up to the
  sum over the rows that have a key.
\<close>

lemma sum_list_groups:
  fixes g :: "'a \<Rightarrow> int"
  assumes "distinct ks" and "\<And>x k. x \<in> set xs \<Longrightarrow> f x = Some k \<Longrightarrow> k \<in> set ks"
  shows "(\<Sum>k\<leftarrow>ks. \<Sum>x\<leftarrow>filter (\<lambda>x. f x = Some k) xs. g x)
           = (\<Sum>x\<leftarrow>filter (\<lambda>x. f x \<noteq> None) xs. g x)"
  using assms(2)
proof (induction xs)
  case Nil
  then show ?case by simp
next
  case (Cons x xs)
  have IH: "(\<Sum>k\<leftarrow>ks. \<Sum>x\<leftarrow>filter (\<lambda>x. f x = Some k) xs. g x)
                   = (\<Sum>x\<leftarrow>filter (\<lambda>x. f x \<noteq> None) xs. g x)"
    by (rule Cons.IH) (use Cons.prems in auto)
  show ?case
  proof (cases "f x")
    case None
    with IH show ?thesis by simp
  next
    case (Some j)
    have j: "j \<in> set ks"
      by (rule Cons.prems [of x]) (simp_all add: Some)
    have "(\<Sum>k\<leftarrow>ks. \<Sum>y\<leftarrow>filter (\<lambda>y. f y = Some k) (x # xs). g y)
            = (\<Sum>k\<leftarrow>ks. (if k = j then g x else 0) + (\<Sum>y\<leftarrow>filter (\<lambda>y. f y = Some k) xs. g y))"
      using Some by (intro arg_cong [where f = sum_list] map_cong) auto
    also have "\<dots> = (\<Sum>k\<leftarrow>ks. if k = j then g x else 0)
                      + (\<Sum>k\<leftarrow>ks. \<Sum>y\<leftarrow>filter (\<lambda>y. f y = Some k) xs. g y)"
      by (simp add: sum_list_addf)
    also have "\<dots> = g x + (\<Sum>x\<leftarrow>filter (\<lambda>x. f x \<noteq> None) xs. g x)"
      using sum_list_single_key [OF assms(1) j] IH by simp
    finally show ?thesis using Some by simp
  qed
qed

section \<open>Properties of utils/trend-metadata.py\<close>

lemma set_map_filter: "set (List.map_filter f xs) = {y. \<exists>x \<in> set xs. f x = Some y}"
  by (induction xs) (auto simp: List.map_filter_simps split: option.splits)

text \<open>Cutting off the fraction of a whole number changes nothing.\<close>

lemma int_of_float_of_int: "int_of_float (of_int n) = n"
  by (simp add: int_of_float_def)

text \<open>On whole numbers the sum of the column is the sum of the whole numbers.\<close>

lemma daily_cyclists_sum_whole:
  assumes "\<forall>r \<in> set rows. \<forall>v. sd_daily_cyclists r = Some v \<longrightarrow> v \<in> \<int>"
  shows "daily_cyclists_sum rows = of_int (sum_list (map whole_cyclists rows))"
  using assms
proof (induction rows)
  case Nil
  then show ?case by (simp add: daily_cyclists_sum_def)
next
  case (Cons r rows)
  have "(case sd_daily_cyclists r of None \<Rightarrow> 0 | Some v \<Rightarrow> v) = of_int (whole_cyclists r)"
  proof (cases "sd_daily_cyclists r")
    case None
    then show ?thesis by (simp add: whole_cyclists_def)
  next
    case (Some v)
    with Cons.prems have "v \<in> \<int>" by simp
    with Some show ?thesis by (simp add: whole_cyclists_def)
  qed
  moreover have "daily_cyclists_sum rows = of_int (sum_list (map whole_cyclists rows))"
    by (rule Cons.IH) (use Cons.prems in simp)
  ultimately show ?case
    by (simp add: daily_cyclists_sum_def)
qed

lemma daily_cyclists_sum_filter_whole:
  assumes "\<forall>r \<in> set rows. \<forall>v. sd_daily_cyclists r = Some v \<longrightarrow> v \<in> \<int>"
  shows "int_of_float (daily_cyclists_sum (filter P rows))
           = sum_list (map whole_cyclists (filter P rows))"
proof -
  from assms have "\<forall>r \<in> set (filter P rows). \<forall>v. sd_daily_cyclists r = Some v \<longrightarrow> v \<in> \<int>"
    by auto
  then show ?thesis
    by (simp only: daily_cyclists_sum_whole int_of_float_of_int)
qed

text \<open>The day name of a date is the \<open>i\<close>-th of the week exactly on weekday \<open>i\<close>.\<close>

lemma distinct_days_order: "distinct days_order"
  by (simp add: days_order_def)

lemma sd_day_of_week_nth:
  assumes "0 \<le> i" and "i < 7"
  shows "sd_day_of_week r = Some (days_order ! nat i) \<longleftrightarrow> on_weekday i r"
proof (cases "sd_date r")
  case None
  then show ?thesis by (simp add: sd_day_of_week_def on_weekday_def)
next
  case (Some d)
  have "nat ((d + 3) mod 7) < length days_order" "nat i < length days_order"
    using assms by (simp_all add: days_order_def nat_less_iff)
  then have "days_order ! nat ((d + 3) mod 7) = days_order ! nat i \<longleftrightarrow> nat ((d + 3) mod 7) = nat i"
    using distinct_days_order by (simp add: nth_eq_iff_index_eq)
  also have "\<dots> \<longleftrightarrow> (d + 3) mod 7 = i"
    using assms by auto
  finally show ?thesis
    using Some by (simp add: sd_day_of_week_def on_weekday_def day_name_def)
qed

lemma weekly_pattern_whole:
  assumes "\<forall>r \<in> set street_data. \<forall>v. sd_daily_cyclists r = Some v \<longrightarrow> v \<in> \<int>"
  shows "weekly_pattern street_data =
     [(''monday'', weekday_cyclists 0 street_data), (''tuesday'', weekday_cyclists 1 street_data),
      (''wednesday'', weekday_cyclists 2 street_data), (''thursday'', weekday_cyclists 3 street_data),
      (''friday'', weekday_cyclists 4 street_data), (''saturday'', weekday_cyclists 5 street_data),
      (''sunday'', weekday_cyclists 6 street_data)]"
proof -
  have names: "lower ''Monday'' = ''monday''" "lower ''Tuesday'' = ''tuesday''"
    "lower ''Wednesday'' = ''wednesday''" "lower ''Thursday'' = ''thursday''"
    "lower ''Friday'' = ''friday''" "lower ''Saturday'' = ''saturday''"
    "lower ''Sunday'' = ''sunday''"
    by code_simp+
  have day: "int_of_float
               (daily_cyclists_sum (filter (\<lambda>r. sd_day_of_week r = Some (days_order ! nat i)) street_data))
             = weekday_cyclists i street_data" if "0 \<le> i" "i < 7" for i
    using that
    by (simp only: daily_cyclists_sum_filter_whole [OF assms] sd_day_of_week_nth weekday_cyclists_def)
  have days:
    "int_of_float (daily_cyclists_sum (filter (\<lambda>r. sd_day_of_week r = Some ''Monday'') street_data))
       = weekday_cyclists 0 street_data"
    "int_of_float (daily_cyclists_sum (filter (\<lambda>r. sd_day_of_week r = Some ''Tuesday'') street_data))
       = weekday_cyclists 1 street_data"
    "int_of_float (daily_cyclists_sum (filter (\<lambda>r. sd_day_of_week r = Some ''Wednesday'') street_data))
       = weekday_cyclists 2 street_data"
    "int_of_float (daily_cyclists_sum (filter (\<lambda>r. sd_day_of_week r = Some ''Thursday'') street_data))
       = weekday_cyclists 3 street_data"
    "int_of_float (daily_cyclists_sum (filter (\<lambda>r. sd_day_of_week r = Some ''Friday'') street_data))
       = weekday_cyclists 4 street_data"
    "int_of_float (daily_cyclists_sum (filter (\<lambda>r. sd_day_of_week r = Some ''Saturday'') street_data))
       = weekday_cyclists 5 street_data"
    "int_of_float (daily_cyclists_sum (filter (\<lambda>r. sd_day_of_week r = Some ''Sunday'') street_data))
       = weekday_cyclists 6 street_data"
    using day [of 0] day [of 1] day [of 2] day [of 3] day [of 4] day [of 5] day [of 6]
    by (simp_all add: days_order_def)
  show ?thesis
    unfolding weekly_pattern_def days_order_def list.map
    by (simp only: days names)
qed

lemma real_of_int_sum_list: "(\<Sum>x\<leftarrow>xs. real_of_int (f x)) = real_of_int (\<Sum>x\<leftarrow>xs. f x)"
  by (induction xs) simp_all

lemma stats_total_cyclists_whole:
  assumes "\<forall>r \<in> set street_data. \<forall>v. sd_daily_cyclists r = Some v \<longrightarrow> v \<in> \<int>"
  shows "stats_total_cyclists street_data
           = sum_list (map whole_cyclists (filter (\<lambda>r. sd_date r \<noteq> None) street_data))"
proof -
  let ?ks = "sort (remdups (List.map_filter sd_date street_data))"
  have group: "daily_cyclists_sum (filter (\<lambda>r. sd_date r = Some d) street_data)
                 = of_int (sum_list (map whole_cyclists (filter (\<lambda>r. sd_date r = Some d) street_data)))"
    for d
    by (rule daily_cyclists_sum_whole) (use assms in auto)
  have "sum_list (map snd (daily_aggregated street_data))
          = of_int (\<Sum>d\<leftarrow>?ks. sum_list (map whole_cyclists (filter (\<lambda>r. sd_date r = Some d) street_data)))"
    by (simp add: daily_aggregated_def comp_def group real_of_int_sum_list)
  then have "stats_total_cyclists street_data
          = (\<Sum>d\<leftarrow>?ks. sum_list (map whole_cyclists (filter (\<lambda>r. sd_date r = Some d) street_data)))"
    by (simp only: stats_total_cyclists_def int_of_float_of_int)
  also have "\<dots> = sum_list (map whole_cyclists (filter (\<lambda>r. sd_date r \<noteq> None) street_data))"
  proof (rule sum_list_groups)
    show "distinct ?ks" by simp
    show "k \<in> set ?ks" if "r \<in> set street_data" "sd_date r = Some k" for r k
      using that by (auto simp: set_map_filter)
  qed
  finally show ?thesis .
qed

lemma weekday_cyclists_total:
  "(\<Sum>i\<leftarrow>[0, 1, 2, 3, 4, 5, 6]. weekday_cyclists i street_data)
     = sum_list (map whole_cyclists (filter (\<lambda>r. sd_date r \<noteq> None) street_data))"
proof -
  let ?f = "\<lambda>r. map_option (\<lambda>d. (d + 3) mod 7) (sd_date r)"
  have on: "on_weekday i = (\<lambda>r. ?f r = Some i)" for i
    by (auto simp: on_weekday_def fun_eq_iff split: option.splits)
  have "(\<Sum>i\<leftarrow>[0, 1, 2, 3, 4, 5, 6 :: int]. sum_list (map whole_cyclists (filter (\<lambda>r. ?f r = Some i) street_data)))
          = sum_list (map whole_cyclists (filter (\<lambda>r. ?f r \<noteq> None) street_data))"
  proof (rule sum_list_groups)
    show "distinct [0, 1, 2, 3, 4, 5, 6 :: int]" by simp
    show "k \<in> set [0, 1, 2, 3, 4, 5, 6 :: int]" if "r \<in> set street_data" "?f r = Some k" for r k
    proof -
      from that obtain d where "k = (d + 3) mod 7" by auto
      then have "0 \<le> k" "k < 7" by simp_all
      then show ?thesis by auto
    qed
  qed
  then show ?thesis
    by (simp add: weekday_cyclists_def on)
qed

text \<open>
  C3, for whole numbers. When every \<open>daily_cyclists\<close> value of the rows kept for
  a street is a whole number, and their absolute values add up to at most
  \<open>2^53\<close>, so that pandas adds them exactly, the total of the stats, which is the
  sum of the per-date sums after grouping by date, equals the sum of the seven
  values of the weekly pattern. The total is the sum of the values over the rows
  that have a date, and the pattern gives for each weekday, under its
  lower-cased name, the sum of the values over the rows themselves whose date
  falls on that weekday.
\<close>

theorem total_cyclists_matches_weekly_pattern:
  assumes "\<forall>r \<in> set street_data. \<forall>v. sd_daily_cyclists r = Some v \<longrightarrow> v \<in> \<int>"
    and "(\<Sum>r\<leftarrow>street_data. case sd_daily_cyclists r of None \<Rightarrow> 0 | Some v \<Rightarrow> \<bar>v\<bar>) \<le> 2 ^ 53"
  shows "stats_total_cyclists street_data = sum_list (map snd (weekly_pattern street_data)) \<and>
     stats_total_cyclists street_data
       = sum_list (map whole_cyclists (filter (\<lambda>r. sd_date r \<noteq> None) street_data)) \<and>
     weekly_pattern street_data =
       [(''monday'', weekday_cyclists 0 street_data), (''tuesday'', weekday_cyclists 1 street_data),
        (''wednesday'', weekday_cyclists 2 street_data), (''thursday'', weekday_cyclists 3 street_data),
        (''friday'', weekday_cyclists 4 street_data), (''saturday'', weekday_cyclists 5 street_data),
        (''sunday'', weekday_cyclists 6 street_data)]"
proof -
  note w = weekly_pattern_whole [OF assms(1)]
  note t = stats_total_cyclists_whole [OF assms(1)]
  have "sum_list (map snd (weekly_pattern street_data))
          = (\<Sum>i\<leftarrow>[0, 1, 2, 3, 4, 5, 6]. weekday_cyclists i street_data)"
    by (simp add: w)
  with t w show ?thesis
    by (simp only: weekday_cyclists_total simp_thms)
qed

text \<open>
  The claim as written holds for every street. Each of the eight numbers is the
  integer part of a float sum: with half a cyclist on a Monday and half on a
  Tuesday the total is \<^verbatim>\<open>int(1.0)\<close>, which is 1, and the weekly pattern adds up
  to \<^verbatim>\<open>int(0.5) + int(0.5)\<close>, which is 0.
\<close>

theorem total_cyclists_halves_counterexample:
  "stats_total_cyclists halves_sample = 1 \<and>
   sum_list (map snd (weekly_pattern halves_sample)) = 0"
proof -
  have "stats_total_cyclists halves_sample = 1"
    by (simp add: halves_sample_def stats_total_cyclists_def daily_aggregated_def
      daily_cyclists_sum_def int_of_float_def List.map_filter_simps)
  moreover have "map snd (weekly_pattern halves_sample) = [0, 0, 0, 0, 0, 0, 0]"
    by (simp add: halves_sample_def weekly_pattern_def
      daily_cyclists_sum_def int_of_float_def sd_day_of_week_def day_name_def days_order_def)
  ultimately show ?thesis by simp
qed

theorem total_cyclists_matches_weekly_pattern_witness:
  "stats_total_cyclists week_sample = 10 \<and>
   weekly_pattern week_sample =
     [(''monday'', 6), (''tuesday'', 4), (''wednesday'', 0), (''thursday'', 0), (''friday'', 0),
      (''saturday'', 0), (''sunday'', 0)] \<and>
   sum_list (map snd (weekly_pattern week_sample)) = 10"
proof -
  have whole: "\<forall>r \<in> set week_sample. \<forall>v. sd_daily_cyclists r = Some v \<longrightarrow> v \<in> \<int>"
    by (simp add: week_sample_def)
  have small: "(\<Sum>r\<leftarrow>week_sample. case sd_daily_cyclists r of None \<Rightarrow> 0 | Some v \<Rightarrow> \<bar>v\<bar>) \<le> 2 ^ 53"
    by (simp add: week_sample_def)
  have days: "weekday_cyclists 0 week_sample = 6" "weekday_cyclists 1 week_sample = 4"
    "weekday_cyclists 2 week_sample = 0" "weekday_cyclists 3 week_sample = 0"
    "weekday_cyclists 4 week_sample = 0" "weekday_cyclists 5 week_sample = 0"
    "weekday_cyclists 6 week_sample = 0"
    by (simp_all add: week_sample_def weekday_cyclists_def on_weekday_def whole_cyclists_def)
  have dated: "sum_list (map whole_cyclists (filter (\<lambda>r. sd_date r \<noteq> None) week_sample)) = 10"
    by (simp add: week_sample_def whole_cyclists_def)
  from total_cyclists_matches_weekly_pattern [OF whole small] show ?thesis
    by (simp only: days dated) simp
qed

section \<open>Properties of the day-of-week totals\<close>

lemma set_drop_duplicates_from: "set (drop_duplicates_from seen xs) = set xs - set seen"
  by (induction xs arbitrary: seen) auto

lemma distinct_drop_duplicates_from: "distinct (drop_duplicates_from seen xs)"
  by (induction xs arbitrary: seen) (auto simp: set_drop_duplicates_from)

lemma set_drop_duplicates: "set (drop_duplicates xs) = set xs"
  by (simp add: drop_duplicates_def set_drop_duplicates_from)

lemma distinct_drop_duplicates: "distinct (drop_duplicates xs)"
  by (simp add: drop_duplicates_def distinct_drop_duplicates_from)

lemma variants_loop_rows:
  "set (fst (variants_loop df vs (c, f)))
     = set c \<union> {r \<in> set df. \<exists>v \<in> set vs. contains_nocase v (road_name r)}"
proof (induction vs arbitrary: c f)
  case Nil
  then show ?case by simp
next
  case (Cons v vs)
  show ?case
  proof (cases "filter (\<lambda>r. contains_nocase v (road_name r)) df = []")
    case True
    then have "\<forall>r \<in> set df. \<not> contains_nocase v (road_name r)"
      by (simp add: filter_empty_conv)
    with True Cons.IH [of c f] show ?thesis
      by auto
  next
    case False
    with Cons.IH [of "c @ filter (\<lambda>r. contains_nocase v (road_name r)) df" "f @ [v]"]
    show ?thesis
      by auto
  qed
qed

text \<open>Two lists without repetitions and with the same elements have the same sums.\<close>

lemma cyclists_sum_same_rows:
  assumes "distinct xs" and "distinct ys" and "set xs = set ys"
  shows "cyclists_sum (filter P xs) = cyclists_sum (filter P ys)"
proof -
  let ?g = "\<lambda>r. case daily_cyclists r of None \<Rightarrow> 0 | Some n \<Rightarrow> n"
  have "sum_list (map ?g (filter P xs)) = sum ?g (set (filter P xs))"
    using assms(1) by (simp add: sum_list_distinct_conv_sum_set)
  also have "\<dots> = sum ?g (set (filter P ys))"
    using assms(3) by simp
  also have "\<dots> = sum_list (map ?g (filter P ys))"
    using assms(2) by (simp add: sum_list_distinct_conv_sum_set)
  finally show ?thesis
    by (simp add: cyclists_sum_def)
qed

lemma cyclists_sum_Nil: "cyclists_sum [] = 0"
  by (simp add: cyclists_sum_def)

lemma street_entry_totals:
  "day_totals (street_entry df True street) =
     map (\<lambda>day. (day, cyclists_sum (filter (\<lambda>r. day_of_week r = Some day)
                         (drop_duplicates (filter (matches_street street) df)))))
       days_order"
proof -
  obtain c f where cf: "variants_loop df (get_street_variants street) ([], []) = (c, f)"
    by (cases "variants_loop df (get_street_variants street) ([], [])")
  let ?D = "drop_duplicates (filter (matches_street street) df)"
  have set_c: "set c = set (filter (matches_street street) df)"
    using variants_loop_rows [of df "get_street_variants street" "[]" "[]"] cf
    by (auto simp: matches_street_def list_ex_iff)
  have same: "cyclists_sum (filter P (drop_duplicates c)) = cyclists_sum (filter P ?D)" for P
    using set_c
    by (intro cyclists_sum_same_rows) (simp_all add: distinct_drop_duplicates set_drop_duplicates)
  have none: "cyclists_sum (filter P ?D) = 0" if "c = []" for P
  proof -
    from that set_c have "filter (matches_street street) df = []"
      by simp
    then show ?thesis
      by (simp add: drop_duplicates_def cyclists_sum_Nil)
  qed
  have none': "cyclists_sum (filter P ?D) = 0" if "drop_duplicates c = []" for P
  proof -
    from that have "set c = {}"
      using set_drop_duplicates [of c] by simp
    then show ?thesis
      by (intro none) simp
  qed
  show ?thesis
    by (simp add: street_entry_def cf Let_def same none none')
qed

text \<open>
  C2, as the code has it. The output has one entry for every target street, in
  order. In the entry of a street, \<open>day_totals\<close> gives for each of the seven
  weekday names, Monday to Sunday, the sum of \<open>daily_cyclists\<close> over the
  deduplicated rows of the daily data whose road name contains one of the
  street's name variants, letter case ignored, and whose date falls on that
  weekday; every day total is 0 when no row matches a variant; and
  \<open>total_cyclists\<close> is the sum of the seven day totals.
\<close>

theorem simple_day_data_totals:
  "map fst (simple_day_data df True target_streets) = target_streets \<and>
   (\<forall>entry \<in> set (simple_day_data df True target_streets).
      day_totals (snd entry) =
        map (\<lambda>day. (day, cyclists_sum (filter (\<lambda>r. day_of_week r = Some day)
                            (drop_duplicates (filter (matches_street (fst entry)) df)))))
          [''Monday'', ''Tuesday'', ''Wednesday'', ''Thursday'', ''Friday'', ''Saturday'',
           ''Sunday''] \<and>
      ((\<forall>r \<in> set df. \<not> matches_street (fst entry) r) \<longrightarrow>
         map snd (day_totals (snd entry)) = [0, 0, 0, 0, 0, 0, 0]) \<and>
      total_cyclists (snd entry) = sum_list (map snd (day_totals (snd entry))))"
proof -
  have totals: "total_cyclists (street_entry df True street)
                  = sum_list (map snd (day_totals (street_entry df True street)))" for street
    by (simp add: street_entry_def Let_def split: prod.splits)
  have zero: "map snd (day_totals (street_entry df True street)) = [0, 0, 0, 0, 0, 0, 0]"
    if "\<forall>r \<in> set df. \<not> matches_street street r" for street
  proof -
    from that have "filter (matches_street street) df = []"
      by (simp add: filter_empty_conv)
    then show ?thesis
      by (simp add: street_entry_totals drop_duplicates_def cyclists_sum_Nil days_order_def)
  qed
  show ?thesis
    using totals zero
    by (auto simp: simple_day_data_def comp_def street_entry_totals days_order_def)
qed

text \<open>
  The claim as written selects the rows whose road name contains a variant. The
  code ignores letter case: the road name \<open>WEST PIER\<close> does not contain
  \<open>West Pier\<close>, yet its row is counted for the street West Pier.
\<close>

theorem simple_day_data_case_counterexample:
  "\<not> py_in ''West Pier'' ''WEST PIER'' \<and>
   simple_day_data [\<lparr>road_name = Str ''WEST PIER'', date = Some 4, daily_cyclists = Some 5\<rparr>]
     True [Str ''West Pier'']
   = [(Str ''West Pier'',
       \<lparr>day_totals = [(''Monday'', 5), (''Tuesday'', 0), (''Wednesday'', 0), (''Thursday'', 0),
                      (''Friday'', 0), (''Saturday'', 0), (''Sunday'', 0)],
        total_cyclists = 5, variants_found = [''West Pier'']\<rparr>)]"
  by code_simp

theorem simple_day_data_totals_witness:
  "day_totals (street_entry
     [\<lparr>road_name = Str ''West Pier'', date = Some 4, daily_cyclists = Some 5\<rparr>,
      \<lparr>road_name = Str ''Nutley Lane'', date = Some 5, daily_cyclists = Some 7\<rparr>,
      \<lparr>road_name = Str ''West Pier'', date = Some 4, daily_cyclists = Some 5\<rparr>]
     True (Str ''West Pier / Kill Lane''))
   = [(''Monday'', 5), (''Tuesday'', 0), (''Wednesday'', 0), (''Thursday'', 0),
      (''Friday'', 0), (''Saturday'', 0), (''Sunday'', 0)] \<and>
   map snd (day_totals (street_entry
     [\<lparr>road_name = Str ''West Pier'', date = Some 4, daily_cyclists = Some 5\<rparr>,
      \<lparr>road_name = Str ''Nutley Lane'', date = Some 5, daily_cyclists = Some 7\<rparr>,
      \<lparr>road_name = Str ''West Pier'', date = Some 4, daily_cyclists = Some 5\<rparr>]
     True (Str ''Clonskeagh Road'')))
   = [0, 0, 0, 0, 0, 0, 0]"
proof -
  define df :: "daily_row list" where
    "df = [\<lparr>road_name = Str ''West Pier'', date = Some 4, daily_cyclists = Some 5\<rparr>,
      \<lparr>road_name = Str ''Nutley Lane'', date = Some 5, daily_cyclists = Some 7\<rparr>,
      \<lparr>road_name = Str ''West Pier'', date = Some 4, daily_cyclists = Some 5\<rparr>]"
  define a where "a = Str ''West Pier / Kill Lane''"
  define b where "b = Str ''Clonskeagh Road''"
  have mem: "(a, street_entry df True a) \<in> set (simple_day_data df True [a, b])"
    "(b, street_entry df True b) \<in> set (simple_day_data df True [a, b])"
    by (simp_all add: simple_day_data_def)
  have none: "\<forall>r \<in> set df. \<not> matches_street b r"
    unfolding df_def b_def by code_simp
  have sums: "map (\<lambda>day. (day, cyclists_sum (filter (\<lambda>r. day_of_week r = Some day)
                            (drop_duplicates (filter (matches_street a) df)))))
          [''Monday'', ''Tuesday'', ''Wednesday'', ''Thursday'', ''Friday'', ''Saturday'',
           ''Sunday'']
        = [(''Monday'', 5), (''Tuesday'', 0), (''Wednesday'', 0), (''Thursday'', 0),
           (''Friday'', 0), (''Saturday'', 0), (''Sunday'', 0)]"
    unfolding df_def a_def by code_simp
  note ta = simple_day_data_totals [of df "[a, b]", THEN conjunct2, THEN bspec, OF mem(1),
      unfolded fst_conv snd_conv]
  note tb = simple_day_data_totals [of df "[a, b]", THEN conjunct2, THEN bspec, OF mem(2),
      unfolded fst_conv snd_conv]
  from ta have "day_totals (street_entry df True a) =
        map (\<lambda>day. (day, cyclists_sum (filter (\<lambda>r. day_of_week r = Some day)
                            (drop_duplicates (filter (matches_street a) df)))))
          [''Monday'', ''Tuesday'', ''Wednesday'', ''Thursday'', ''Friday'', ''Saturday'',
           ''Sunday'']"
    by (rule conjunct1)
  then have 1: "day_totals (street_entry df True a)
        = [(''Monday'', 5), (''Tuesday'', 0), (''Wednesday'', 0), (''Thursday'', 0),
           (''Friday'', 0), (''Saturday'', 0), (''Sunday'', 0)]"
    by (simp only: sums)
  from tb have "(\<forall>r \<in> set df. \<not> matches_street b r) \<longrightarrow>
         map snd (day_totals (street_entry df True b)) = [0, 0, 0, 0, 0, 0, 0]"
    by (elim conjE)
  with none have 2: "map snd (day_totals (street_entry df True b)) = [0, 0, 0, 0, 0, 0, 0]"
    by (rule rev_mp)
  from 1 2 show ?thesis
    unfolding df_def a_def b_def by (rule conjI)
qed

section \<open>Properties of the dashboard loaders\<close>







text \<open>
  A JSON loader of tab 3, case by case: the file is looked for and, if it is
  there, read; an \<^verbatim>\<open>Exception\<close> in either step gives the warning and the empty
  value.
\<close>

lemma json_loader_cases:
  "json_loader w file missing failed nothing =
     (case path_exists w (get_data_path w @ [file]) of
        Inl e \<Rightarrow> if is_exception e then ([StWarning failed], Inr nothing) else ([], Inl e)
      | Inr False \<Rightarrow> ([StWarning missing], Inr nothing)
      | Inr True \<Rightarrow>
          (case json_load w (get_data_path w @ [file]) of
             Inl e \<Rightarrow> if is_exception e then ([StWarning failed], Inr nothing) else ([], Inl e)
           | Inr v \<Rightarrow> ([], Inr v)))"
  by (simp add: json_loader_def json_loader_body_def try_except_def and_then_def call_def
      display_def returns_def Let_def split: sum.splits bool.splits)

text \<open>The route-popularity loader, case by case.\<close>

lemma load_route_popularity_data_cases:
  "load_route_popularity_data w =
     (let file_path = get_data_path w @ [''dlr-route-popularity.csv''];
          failed = ([StError ''Error loading route popularity data'', StError ''Traceback''],
                    Inr (empty_frame w))
      in case path_exists w file_path of
           Inl e \<Rightarrow> if is_exception e then failed else ([], Inl e)
         | Inr False \<Rightarrow> ([StError ''Route popularity CSV not found at''], Inr (empty_frame w))
         | Inr True \<Rightarrow>
             (case read_csv w file_path of
                Inl e \<Rightarrow> if is_exception e then failed else ([], Inl e)
              | Inr df \<Rightarrow>
                  (case prepare_routes w df of
                     Inl e \<Rightarrow> if is_exception e then failed else ([], Inl e)
                   | Inr df' \<Rightarrow> ([], Inr df'))))"
  by (simp add: load_route_popularity_data_def route_popularity_data_body_def try_except_def
      and_then_def call_def display_def returns_def Let_def split: sum.splits bool.splits)



section \<open>Properties of utils/street-extractor.py\<close>

lemma select_rows_map: "select_rows (map f rows) rows = filter f rows"
  by (induction rows) (simp_all add: select_rows_def)

lemma select_rows_either:
  "select_rows (map2 (\<or>) (map f rows) (map g rows)) rows = filter (\<lambda>r. f r \<or> g r) rows"
  by (induction rows) (simp_all add: select_rows_def)

lemma str_contains_plain:
  "is_plain pat \<Longrightarrow> str_contains compile pat column = Inr (map (cell_contains pat) column)"
  by (simp add: str_contains_def cell_contains_def)

lemma is_plain_r830: "is_plain ''r830''"
  by code_simp

text \<open>
  For a part without special characters the selection is as the claim says, and
  the result is the merged union of the selected geometries unless the union or
  the merging raises.
\<close>

lemma street_geometry_body_plain:
  assumes "is_plain part"
  shows "street_geometry_body lib part all_edges =
     (let chosen = filter (name_or_ref_contains part) all_edges;
          chosen = (if chosen = [] \<and> py_in ''kill lane'' part
                     then filter (ref_contains ''r830'') all_edges else chosen)
      in if chosen = [] then Inr None
         else (case unary_union lib (map edge_geometry chosen) of
                 Inl e \<Rightarrow> Inl e
               | Inr u \<Rightarrow>
                   (case linemerge lib u of Inl e \<Rightarrow> Inl e | Inr merged \<Rightarrow> Inr (Some merged))))"
proof -
  have nr: "name_or_ref_contains part =
      (\<lambda>e. cell_contains part (str_lower (edge_name e)) \<or> cell_contains part (str_lower (edge_ref e)))"
    by (simp add: fun_eq_iff name_or_ref_contains_def)
  have rc: "ref_contains ''r830'' = (\<lambda>e. cell_contains ''r830'' (str_lower (edge_ref e)))"
    by (simp add: fun_eq_iff ref_contains_def)
  have either: "select_rows
      (map2 (\<or>) (map (cell_contains part) (map (\<lambda>e. str_lower (edge_name e)) all_edges))
                 (map (cell_contains part) (map (\<lambda>e. str_lower (edge_ref e)) all_edges))) all_edges
      = filter (name_or_ref_contains part) all_edges"
    unfolding nr
    using select_rows_either
      [where f = "\<lambda>e. cell_contains part (str_lower (edge_name e))"
         and g = "\<lambda>e. cell_contains part (str_lower (edge_ref e))" and rows = all_edges]
    by (simp add: comp_def)
  have r830: "select_rows (map (cell_contains ''r830'') (map (\<lambda>e. str_lower (edge_ref e)) all_edges))
      all_edges = filter (ref_contains ''r830'') all_edges"
    unfolding rc
    using select_rows_map [where f = "\<lambda>e. cell_contains ''r830'' (str_lower (edge_ref e))"
        and rows = all_edges]
    by (simp add: comp_def)
  show ?thesis
    unfolding street_geometry_body_def
    by (simp only: str_contains_plain [OF assms] str_contains_plain [OF is_plain_r830] either r830
        Let_def sum.case split: if_splits) simp
qed

text \<open>
  So, for such a part, the function returns \<^verbatim>\<open>None\<close> when nothing is selected
  and also when the union or the merging of what is selected raises.
\<close>

lemma get_street_geometry_None_iff:
  assumes "is_plain part"
  shows "get_street_geometry lib part all_edges = None \<longleftrightarrow>
     (let chosen = filter (name_or_ref_contains part) all_edges;
          chosen = (if chosen = [] \<and> py_in ''kill lane'' part
                     then filter (ref_contains ''r830'') all_edges else chosen)
      in chosen = [] \<or>
         (case unary_union lib (map edge_geometry chosen) of
            Inl e \<Rightarrow> True
          | Inr u \<Rightarrow> (case linemerge lib u of Inl e \<Rightarrow> True | Inr merged \<Rightarrow> False)))"
  by (simp add: get_street_geometry_def street_geometry_body_plain [OF assms] Let_def
      split: sum.splits)

text \<open>
  C5. A part that names exactly one edge selects that edge, and the function is
  to return the merged union of the selected geometries. It returns \<^verbatim>\<open>None\<close>:
  the union of one LineString is that LineString, \<^verbatim>\<open>linemerge\<close> raises
  ValueError for it, and the handler of the function turns every exception into
  \<^verbatim>\<open>None\<close>. The function that trims has a handler for this case.
\<close>

theorem get_street_geometry_single_edge:
  "filter (name_or_ref_contains ''west pier'') sample_edges =
     [\<lparr>edge_name = Str ''West Pier'', edge_ref = NaN, edge_geometry = Line [(0, 1000)]\<rparr>] \<and>
   unary_union axis_library [Line [(0, 1000)]] = Inr (Line [(0, 1000)]) \<and>
   linemerge axis_library (Line [(0, 1000)]) = Inl ValueError \<and>
   get_street_geometry axis_library ''west pier'' sample_edges = None"
  by code_simp

text \<open>
  With two edges the union is a MultiLineString and the function returns the
  merged lines; here through the ref R830, which stands in for Kill Lane.
\<close>

lemma get_street_geometry_two_edges:
  "get_street_geometry axis_library ''kill lane'' sample_edges
     = Some (Line [(3000, 3400), (3500, 3900)])"
  by code_simp

text \<open>The pieces of the road that the trimming keeps.\<close>

lemma filter_not_empty_valid:
  "filter (\<lambda>g. is_valid lib g \<and> geom_length lib g > 0) (filter (\<lambda>g. \<not> is_empty lib g) gs)
     = filter (\<lambda>g. \<not> is_empty lib g \<and> is_valid lib g \<and> 0 < geom_length lib g) gs"
  by (induction gs) auto

text \<open>
  C1, as the code has it. The road and the points are taken to EPSG:3857, every
  point is buffered by 25 metres, and the road is intersected with the union of
  the buffers. The pieces kept are those that are not empty, valid and of
  positive length. Without such a piece the result is \<^verbatim>\<open>None\<close>, and only then.
  Otherwise the result is the \<^verbatim>\<open>linemerge\<close> of the union of the pieces, or that
  union itself when \<^verbatim>\<open>linemerge\<close> raises, taken back to EPSG:4326. An exception of
  \<^verbatim>\<open>unary_union\<close> leaves the function.
\<close>

theorem trim_geometry_to_points_result:
  "trim_geometry_to_points lib road_geom points 25 =
     (case unary_union lib (map (\<lambda>p. buffer lib (to_3857 lib p) 25) points) of
        Inl e \<Rightarrow> Inl e
      | Inr corridor \<Rightarrow>
          (let pieces =
                 filter (\<lambda>g. \<not> is_empty lib g \<and> is_valid lib g \<and> 0 < geom_length lib g)
                   (explode lib (intersection lib (to_3857 lib road_geom) corridor))
           in if pieces = [] then Inr None
              else (case unary_union lib pieces of
                      Inl e \<Rightarrow> Inl e
                    | Inr u \<Rightarrow>
                        Inr (Some (to_4326 lib
                               (case linemerge lib u of Inl e \<Rightarrow> u | Inr merged \<Rightarrow> merged)))))) \<and>
   (trim_geometry_to_points lib road_geom points 25 = Inr None \<longleftrightarrow>
      (\<exists>corridor.
         unary_union lib (map (\<lambda>p. buffer lib (to_3857 lib p) 25) points) = Inr corridor \<and>
         filter (\<lambda>g. \<not> is_empty lib g \<and> is_valid lib g \<and> 0 < geom_length lib g)
           (explode lib (intersection lib (to_3857 lib road_geom) corridor)) = []))"
proof -
  have result: "trim_geometry_to_points lib road_geom points 25 =
     (case unary_union lib (map (\<lambda>p. buffer lib (to_3857 lib p) 25) points) of
        Inl e \<Rightarrow> Inl e
      | Inr corridor \<Rightarrow>
          (let pieces =
                 filter (\<lambda>g. \<not> is_empty lib g \<and> is_valid lib g \<and> 0 < geom_length lib g)
                   (explode lib (intersection lib (to_3857 lib road_geom) corridor))
           in if pieces = [] then Inr None
              else (case unary_union lib pieces of
                      Inl e \<Rightarrow> Inl e
                    | Inr u \<Rightarrow>
                        Inr (Some (to_4326 lib
                               (case linemerge lib u of Inl e \<Rightarrow> u | Inr merged \<Rightarrow> merged))))))"
  proof (cases "unary_union lib (map (\<lambda>p. buffer lib (to_3857 lib p) 25) points)")
    case (Inl e)
    then show ?thesis
      by (simp add: trim_geometry_to_points_def comp_def)
  next
    case (Inr corridor)
    let ?parts = "explode lib (intersection lib (to_3857 lib road_geom) corridor)"
    have "filter (\<lambda>g. \<not> is_empty lib g) ?parts = [] \<Longrightarrow>
          filter (\<lambda>g. \<not> is_empty lib g \<and> is_valid lib g \<and> 0 < geom_length lib g) ?parts = []"
      by (simp add: filter_empty_conv)
    with Inr show ?thesis
      by (simp add: trim_geometry_to_points_def comp_def Let_def filter_not_empty_valid)
  qed
  have "trim_geometry_to_points lib road_geom points 25 = Inr None \<longleftrightarrow>
      (\<exists>corridor.
         unary_union lib (map (\<lambda>p. buffer lib (to_3857 lib p) 25) points) = Inr corridor \<and>
         filter (\<lambda>g. \<not> is_empty lib g \<and> is_valid lib g \<and> 0 < geom_length lib g)
           (explode lib (intersection lib (to_3857 lib road_geom) corridor)) = [])"
    unfolding result by (auto simp: Let_def split: sum.splits)
  with result show ?thesis by (rule conjI)
qed

text \<open>
  The claim as written has the result merged by \<^verbatim>\<open>linemerge\<close>. With one cyclist
  point on the road a single piece is kept; its union is a LineString, for
  which \<^verbatim>\<open>linemerge\<close> raises, and the function returns the union.
\<close>

theorem trim_geometry_single_piece_counterexample:
  "unary_union axis_library [Line [(75, 125)]] = Inr (Line [(75, 125)]) \<and>
   linemerge axis_library (Line [(75, 125)]) = Inl ValueError \<and>
   trim_geometry_to_points axis_library (Line [(0, 1000)]) [Pt 100] 25
     = Inr (Some (Line [(75, 125)]))"
  by code_simp

theorem trim_geometry_to_points_result_witness:
  "trim_geometry_to_points axis_library (Line [(0, 1000)]) [Pt 100, Pt 110, Pt 500] 25
     = Inr (Some (Line [(75, 135), (475, 525)])) \<and>
   trim_geometry_to_points axis_library (Line [(0, 1000)]) [Pt 1025] 25 = Inr None \<and>
   trim_geometry_to_points axis_library (Line [(0, 1000)]) [Pt 2000] 25 = Inr None"
proof -
  have a: "(case unary_union axis_library
                  (map (\<lambda>p. buffer axis_library (to_3857 axis_library p) 25) [Pt 100, Pt 110, Pt 500]) of
        Inl e \<Rightarrow> Inl e
      | Inr corridor \<Rightarrow>
          (let pieces =
                 filter (\<lambda>g. \<not> is_empty axis_library g \<and> is_valid axis_library g
                              \<and> 0 < geom_length axis_library g)
                   (explode axis_library
                      (intersection axis_library (to_3857 axis_library (Line [(0, 1000)])) corridor))
           in if pieces = [] then Inr None
              else (case unary_union axis_library pieces of
                      Inl e \<Rightarrow> Inl e
                    | Inr u \<Rightarrow>
                        Inr (Some (to_4326 axis_library
                               (case linemerge axis_library u of Inl e \<Rightarrow> u | Inr merged \<Rightarrow> merged))))))
      = Inr (Some (Line [(75, 135), (475, 525)]))"
    by code_simp
  have b: "(case unary_union axis_library
                  (map (\<lambda>p. buffer axis_library (to_3857 axis_library p) 25) [Pt 1025]) of
        Inl e \<Rightarrow> Inl e
      | Inr corridor \<Rightarrow>
          (let pieces =
                 filter (\<lambda>g. \<not> is_empty axis_library g \<and> is_valid axis_library g
                              \<and> 0 < geom_length axis_library g)
                   (explode axis_library
                      (intersection axis_library (to_3857 axis_library (Line [(0, 1000)])) corridor))
           in if pieces = [] then Inr None
              else (case unary_union axis_library pieces of
                      Inl e \<Rightarrow> Inl e
                    | Inr u \<Rightarrow>
                        Inr (Some (to_4326 axis_library
                               (case linemerge axis_library u of Inl e \<Rightarrow> u | Inr merged \<Rightarrow> merged))))))
      = Inr None"
    by code_simp
  have c: "(case unary_union axis_library
                  (map (\<lambda>p. buffer axis_library (to_3857 axis_library p) 25) [Pt 2000]) of
        Inl e \<Rightarrow> Inl e
      | Inr corridor \<Rightarrow>
          (let pieces =
                 filter (\<lambda>g. \<not> is_empty axis_library g \<and> is_valid axis_library g
                              \<and> 0 < geom_length axis_library g)
                   (explode axis_library
                      (intersection axis_library (to_3857 axis_library (Line [(0, 1000)])) corridor))
           in if pieces = [] then Inr None
              else (case unary_union axis_library pieces of
                      Inl e \<Rightarrow> Inl e
                    | Inr u \<Rightarrow>
                        Inr (Some (to_4326 axis_library
                               (case linemerge axis_library u of Inl e \<Rightarrow> u | Inr merged \<Rightarrow> merged))))))
      = Inr None"
    by code_simp
  show ?thesis
    using trim_geometry_to_points_result
        [of axis_library "Line [(0, 1000)]" "[Pt 100, Pt 110, Pt 500]", THEN conjunct1]
      trim_geometry_to_points_result [of axis_library "Line [(0, 1000)]" "[Pt 1025]", THEN conjunct1]
      trim_geometry_to_points_result [of axis_library "Line [(0, 1000)]" "[Pt 2000]", THEN conjunct1]
    by (simp only: a b c simp_thms)
qed

text \<open>The loop over the parts collects the trimmed geometries of the parts, in order.\<close>

lemma parts_loop:
  "for_loop (part_step lib gdf_edges gdf_points) acc parts = Inr all_parts \<Longrightarrow>
   all_parts = acc @
     List.map_filter
       (\<lambda>part. case part_trimmed lib gdf_edges gdf_points part of
                  Inr (Some t) \<Rightarrow> Some t
                | _ \<Rightarrow> None)
       parts"
proof (induction parts arbitrary: acc)
  case Nil
  then show ?case by (simp add: List.map_filter_simps)
next
  case (Cons part parts)
  show ?case
  proof (cases "part_trimmed lib gdf_edges gdf_points part")
    case (Inl e)
    then have "part_step lib gdf_edges gdf_points acc part = Inl e"
      by (simp add: part_step_def)
    with Cons.prems show ?thesis by simp
  next
    case (Inr r)
    show ?thesis
    proof (cases r)
      case None
      with Inr have "part_step lib gdf_edges gdf_points acc part = Inr acc"
        by (simp add: part_step_def)
      with Cons.prems have "for_loop (part_step lib gdf_edges gdf_points) acc parts = Inr all_parts"
        by simp
      from Cons.IH [OF this] Inr None show ?thesis
        by (simp add: List.map_filter_simps)
    next
      case (Some t)
      with Inr have "part_step lib gdf_edges gdf_points acc part = Inr (acc @ [t])"
        by (simp add: part_step_def)
      with Cons.prems
      have "for_loop (part_step lib gdf_edges gdf_points) (acc @ [t]) parts = Inr all_parts"
        by simp
      from Cons.IH [OF this] Inr Some show ?thesis
        by (simp add: List.map_filter_simps)
    qed
  qed
qed

text \<open>A street adds its feature, if it has one.\<close>

lemma street_step_feature:
  assumes "street_step lib gdf_edges gdf_points acc original_name = Inr acc'"
  shows "acc' = acc @
     (case street_feature lib gdf_edges gdf_points original_name of None \<Rightarrow> [] | Some f \<Rightarrow> [f])"
proof -
  let ?street = "strip (lower original_name)"
  from assms obtain all_parts
    where loop: "for_loop (part_step lib gdf_edges gdf_points) [] (name_parts ?street) = Inr all_parts"
    by (auto simp: street_step_def Let_def split: sum.splits)
  from parts_loop [OF loop]
  have parts: "List.map_filter
       (\<lambda>part. case part_trimmed lib gdf_edges gdf_points part of
                  Inr (Some t) \<Rightarrow> Some t
                | _ \<Rightarrow> None)
       (name_parts ?street) = all_parts"
    by simp
  from assms loop show ?thesis
    by (auto simp: street_step_def street_feature_def parts Let_def split: sum.splits if_splits)
qed

lemma streets_loop:
  "for_loop (street_step lib gdf_edges gdf_points) acc file_a = Inr final_segments \<Longrightarrow>
   final_segments = acc @ List.map_filter (street_feature lib gdf_edges gdf_points) file_a"
proof (induction file_a arbitrary: acc)
  case Nil
  then show ?case by (simp add: List.map_filter_simps)
next
  case (Cons name file_a)
  from Cons.prems obtain acc'
    where step: "street_step lib gdf_edges gdf_points acc name = Inr acc'"
      and rest: "for_loop (street_step lib gdf_edges gdf_points) acc' file_a = Inr final_segments"
    by (auto split: sum.splits)
  from Cons.IH [OF rest] street_step_feature [OF step] show ?case
    by (simp add: List.map_filter_simps split: option.splits)
qed

text \<open>
  C6, as the code has it. When the OSM edges cannot be prepared, \<^verbatim>\<open>main\<close>
  returns without writing a file. When they can and the script reaches the
  export, a frame is written: it has the columns \<open>street_name\<close>,
  \<open>original_clean_name\<close> and \<open>geometry\<close> and, in the order of the input, one
  row for each street that has a feature, that is, of which at least one part
  has a trimmed geometry and for which the union of these is computed; the row
  carries the name of the street, its clean name and that union. With no such
  street the frame has the three columns and no row.
\<close>

theorem main_output:
  "main lib file_a gdf_points (Inl e) = Inr None \<and>
   main lib file_a gdf_points (Inr gdf_edges) \<noteq> Inr None \<and>
   (\<forall>out. main lib file_a gdf_points (Inr gdf_edges) = Inr (Some out) \<longrightarrow>
      frame_columns out = [''street_name'', ''original_clean_name'', ''geometry''] \<and>
      frame_rows out = List.map_filter (street_feature lib gdf_edges gdf_points) file_a)"
proof (intro conjI allI impI)
  show "main lib file_a gdf_points (Inl e) = Inr None"
    by (simp add: main_def)
  show "main lib file_a gdf_points (Inr gdf_edges) \<noteq> Inr None"
    by (simp add: main_def split: sum.splits)
next
  fix out
  assume written: "main lib file_a gdf_points (Inr gdf_edges) = Inr (Some out)"
  then obtain final_segments
    where loop: "for_loop (street_step lib gdf_edges gdf_points) [] file_a = Inr final_segments"
    by (auto simp: main_def split: sum.splits)
  from streets_loop [OF loop]
  have rows: "final_segments = List.map_filter (street_feature lib gdf_edges gdf_points) file_a"
    by simp
  from written loop
  have out: "out = (if final_segments = []
      then \<lparr>frame_columns = [''street_name'', ''original_clean_name'', ''geometry''], frame_rows = []\<rparr>
      else \<lparr>frame_columns = [''street_name'', ''original_clean_name'', ''geometry''],
            frame_rows = final_segments\<rparr>)"
    by (simp add: main_def)
  from out show "frame_columns out = [''street_name'', ''original_clean_name'', ''geometry'']"
    by (simp split: if_splits)
  from out rows show "frame_rows out = List.map_filter (street_feature lib gdf_edges gdf_points) file_a"
    by (simp split: if_splits)
qed

text \<open>
  The claim as written has a file written also when no street has a trimmed
  geometry. When the OSM graph can be neither loaded nor downloaded, no street
  is processed and no file is written.
\<close>

theorem main_osm_failure_counterexample:
  "main axis_library [''Kill Lane''] sample_points
     (Inl OSError :: exn + axis_geom edge list) = Inr None"
  by code_simp

theorem main_output_witness:
  "main axis_library [''West Pier'', ''Marine Road / Kill Lane'', ''Nutley Lane''] sample_points
     (Inr sample_edges)
   = Inr (Some \<lparr>frame_columns = [''street_name'', ''original_clean_name'', ''geometry''],
                frame_rows =
                  [\<lparr>ft_street_name = ''Marine Road / Kill Lane'',
                    ft_original_clean_name = ''marine road / kill lane'',
                    ft_geometry = Line [(3075, 3125), (3575, 3625)]\<rparr>]\<rparr>) \<and>
   List.map_filter (street_feature axis_library sample_edges sample_points)
     [''West Pier'', ''Marine Road / Kill Lane'', ''Nutley Lane'']
   = [\<lparr>ft_street_name = ''Marine Road / Kill Lane'',
       ft_original_clean_name = ''marine road / kill lane'',
       ft_geometry = Line [(3075, 3125), (3575, 3625)]\<rparr>]"
proof -
  define out where "out =
     \<lparr>frame_columns = [''street_name'', ''original_clean_name'', ''geometry''],
      frame_rows =
        [\<lparr>ft_street_name = ''Marine Road / Kill Lane'',
          ft_original_clean_name = ''marine road / kill lane'',
          ft_geometry = Line [(3075, 3125), (3575, 3625)]\<rparr>]\<rparr>"
  have m: "main axis_library [''West Pier'', ''Marine Road / Kill Lane'', ''Nutley Lane'']
      sample_points (Inr sample_edges) = Inr (Some out)"
    unfolding out_def by code_simp
  from main_output [of axis_library "[''West Pier'', ''Marine Road / Kill Lane'', ''Nutley Lane'']"
      sample_points undefined sample_edges] m
  have "frame_rows out = List.map_filter (street_feature axis_library sample_edges sample_points)
     [''West Pier'', ''Marine Road / Kill Lane'', ''Nutley Lane'']"
    by blast
  with m show ?thesis
    by (simp add: out_def)
qed

end
